theory Spec2Isabelle
  imports Complex_Main "HOL-Library.Sublist"
begin

section \<open>The ENSO training and evaluation driver\<close>

text \<open>
  A shallow embedding of \<^verbatim>\<open>examples/extformer_moe/extformer_moe_enso_train.py\<close>.
  The driver is straight-line code around an external framework: it assembles
  dictionaries, constructs framework objects and calls \<^verbatim>\<open>train()\<close> and
  \<^verbatim>\<open>eval()\<close> on solver objects. The embedding keeps

  \<^item> Python values as a datatype \<open>pyval\<close>; an object is recorded by its class and
    the arguments of its constructor call;
  \<^item> the configuration as records, one per node of \<^verbatim>\<open>cfg\<close>;
  \<^item> the framework as a record of functions (\<open>framework\<close>): everything the driver
    reads back from it, and the float arithmetic of the interpreter, by parameter;
  \<^item> each function of the file as the list of steps it performs, in program order:
    a step is an interaction with the framework (\<open>Do\<close>) or an exception raised by
    the driver's own code (\<open>Throw\<close>);
  \<^item> a run as \<open>exec\<close>: the steps are performed in order until one raises; which
    framework calls raise is decided by an arbitrary oracle over the history.
\<close>

subsection \<open>Layers and parameters\<close>

text \<open>A parameter tensor, by its identity.\<close>

datatype param = Param nat

text \<open>
  A layer as \<^verbatim>\<open>get_parameter_names\<close> sees it: the classes it is an instance of
  (what \<^verbatim>\<open>isinstance\<close> tests), what \<^verbatim>\<open>named_children()\<close> yields, and the
  dictionary \<^verbatim>\<open>_parameters\<close>, whose values may be \<^verbatim>\<open>None\<close>.
\<close>

datatype module = Module (classes: "string list")
                         (named_children: "(string \<times> module) list")
                         (parameters: "(string \<times> param option) list")

text \<open>\<^verbatim>\<open>isinstance(m, tuple(types))\<close>.\<close>

definition isinstance :: "module \<Rightarrow> string list \<Rightarrow> bool" where
  "isinstance m types = list_ex (\<lambda>t. t \<in> set (classes m)) types"

text \<open>The f-string \<^verbatim>\<open>f"{name}.{n}"\<close>.\<close>

definition qualify :: "string \<Rightarrow> string \<Rightarrow> string" where
  "qualify name n = name @ ''.'' @ n"

text \<open>
  \<^verbatim>\<open>get_parameter_names(model, forbidden_layer_types)\<close>: the loop over the children
  appends, for each child, the comprehension over the child's own result; the filter
  of the comprehension tests the child, not the name.
\<close>

fun get_parameter_names :: "module \<Rightarrow> string list \<Rightarrow> string list" where
  "get_parameter_names (Module cls children params) forbidden_layer_types =
     concat (map (\<lambda>(name, child).
                map (qualify name)
                  (filter (\<lambda>n. \<not> isinstance child forbidden_layer_types)
                     (get_parameter_names child forbidden_layer_types)))
              children)
     @ map fst params"

text \<open>
  The places of a layer tree where a parameter is registered: the chain of children
  that leads from the root to the owning layer, the key in the owner's
  \<^verbatim>\<open>_parameters\<close>, and the value. This is the vocabulary of the claims
  (``reachable through a child'', ``lies under a child''), not code of the driver.
\<close>

type_synonym slot = "(string \<times> module) list \<times> string \<times> param option"

fun below :: "string \<times> module \<Rightarrow> slot \<Rightarrow> slot" where
  "below cm (chain, k, p) = (cm # chain, k, p)"

fun slots :: "module \<Rightarrow> slot list" where
  "slots (Module cls children params) =
     concat (map (\<lambda>(c, ch). map (below (c, ch)) (slots ch)) children)
     @ map (\<lambda>(k, p). ([], k, p)) params"

fun qualified_name :: "slot \<Rightarrow> string" where
  "qualified_name ([], k, p) = k"
| "qualified_name ((c, ch) # chain, k, p) = qualify c (qualified_name (chain, k, p))"

fun under_forbidden :: "string list \<Rightarrow> slot \<Rightarrow> bool" where
  "under_forbidden types (chain, k, p) = list_ex (\<lambda>(c, ch). isinstance ch types) chain"

text \<open>
  The claim's description of the result of \<^verbatim>\<open>get_parameter_names\<close>: the qualified
  names of the slots that no forbidden layer lies above.
\<close>

definition unforbidden_names :: "module \<Rightarrow> string list \<Rightarrow> string list" where
  "unforbidden_names m types =
     map qualified_name (filter (\<lambda>s. \<not> under_forbidden types s) (slots m))"

text \<open>
  \<^verbatim>\<open>model.named_parameters()\<close> is a method of the framework's layer class, not code
  of the driver. It is modelled after Paddle's implementation: the layers in
  pre-order, each with its own \<^verbatim>\<open>_parameters\<close>; a name is the prefix, a dot when the
  prefix is not empty, and the key; a \<^verbatim>\<open>None\<close> value and a parameter object already
  yielded are skipped. A layer tree has no layer object in two places, so the
  sub-layers this traversal visits are the named children.
\<close>

definition join_prefix :: "string \<Rightarrow> string \<Rightarrow> string" where
  "join_prefix pre key = pre @ (if pre = [] then [] else ''.'') @ key"

fun named_slots :: "string \<Rightarrow> module \<Rightarrow> (string \<times> param option) list" where
  "named_slots pre (Module cls children params) =
     map (\<lambda>(k, p). (join_prefix pre k, p)) params
     @ concat (map (\<lambda>(c, ch). named_slots (join_prefix pre c) ch) children)"

fun yield_params :: "param list \<Rightarrow> (string \<times> param option) list \<Rightarrow> (string \<times> param) list" where
  "yield_params params_set [] = []"
| "yield_params params_set ((name, None) # rest) = yield_params params_set rest"
| "yield_params params_set ((name, Some p) # rest) =
     (if p \<in> set params_set then yield_params params_set rest
      else (name, p) # yield_params (p # params_set) rest)"

definition named_parameters :: "module \<Rightarrow> (string \<times> param) list" where
  "named_parameters m = yield_params [] (named_slots [] m)"

text \<open>
  The naming discipline of the framework's layers: the children of a layer have
  distinct, non-empty names without a dot, and no parameter key contains a dot.
\<close>

fun well_named :: "module \<Rightarrow> bool" where
  "well_named (Module cls children params) =
     (distinct (map fst children)
      \<and> list_all (\<lambda>(c, ch). c \<noteq> [] \<and> CHR ''.'' \<notin> set c \<and> well_named ch) children
      \<and> list_all (\<lambda>(k, p). CHR ''.'' \<notin> set k) params)"

text \<open>No parameter object is registered in two slots (no weight tying).\<close>

definition untied :: "module \<Rightarrow> bool" where
  "untied m = distinct (List.map_filter (\<lambda>s. snd (snd s)) (slots m))"

subsection \<open>Python values and the configuration\<close>

text \<open>
  The type \<open>'f\<close> stands for Python's floats. An object is \<open>PObj\<close>: its class, and
  the positional and keyword arguments of the constructor call that built it.
  \<open>PFun\<close> is a function object, by its qualified name; \<open>PRet\<close> is what calling a
  callable object returned.
\<close>

datatype 'f pyval =
    PNone
  | PBool bool
  | PInt int
  | PFloat 'f
  | PStr string
  | PList "'f pyval list"
  | PDict "(string \<times> 'f pyval) list"
  | PFun string
  | PParam param
  | PObj string "'f pyval list" "(string \<times> 'f pyval) list"
  | PRet "'f pyval"

record 'f DATASET_cfg =
  label_keys :: "'f pyval"
  in_len :: "'f pyval"
  out_len :: "'f pyval"
  in_stride :: "'f pyval"
  out_stride :: "'f pyval"
  train_samples_gap :: "'f pyval"
  eval_samples_gap :: "'f pyval"
  normalize_sst :: "'f pyval"

text \<open>\<^verbatim>\<open>cfg.MODEL\<close>: the key the driver reads, and the other keys.\<close>

record 'f MODEL_cfg =
  input_keys :: "'f pyval"
  MODEL_other :: "(string \<times> 'f pyval) list"

record 'f lr_scheduler_cfg =
  learning_rate :: 'f
  lr_scheduler_other :: "(string \<times> 'f pyval) list"

record 'f TRAIN_cfg =
  TRAIN_batch_size :: "'f pyval"
  wd :: "'f pyval"
  lr_scheduler :: "'f lr_scheduler_cfg"
  min_lr_ratio :: 'f
  epochs :: int
  update_freq :: "'f pyval"
  eval_during_train :: "'f pyval"

record 'f EVAL_cfg =
  EVAL_batch_size :: "'f pyval"
  compute_metric_by_batch :: "'f pyval"
  eval_with_no_grad :: "'f pyval"
  EVAL_pretrained_model_path :: "'f pyval"

record 'f RNC_cfg =
  use_rnc :: bool
  rnc_pretrain :: bool
  load_rnc_pretrain_params :: bool
  pretrain_update_freq :: "'f pyval"
  RNC_other :: "(string \<times> 'f pyval) list"

record 'f cfg =
  FILE_PATH :: "'f pyval"
  MODEL :: "'f MODEL_cfg"
  DATASET :: "'f DATASET_cfg"
  TRAIN :: "'f TRAIN_cfg"
  EVAL :: "'f EVAL_cfg"
  RNC :: "'f RNC_cfg"
  MOE :: "'f pyval"
  output_dir :: string
  seed :: "'f pyval"
  log_freq :: "'f pyval"
  DEVICE :: int
  mode :: string

text \<open>The items of the mappings that the driver unpacks or converts as a whole.\<close>

definition MODEL_items :: "'f MODEL_cfg \<Rightarrow> (string \<times> 'f pyval) list" where
  "MODEL_items m = (''input_keys'', input_keys m) # MODEL_other m"

definition lr_scheduler_items :: "'f lr_scheduler_cfg \<Rightarrow> (string \<times> 'f pyval) list" where
  "lr_scheduler_items l = (''learning_rate'', PFloat (learning_rate l)) # lr_scheduler_other l"

definition RNC_items :: "'f RNC_cfg \<Rightarrow> (string \<times> 'f pyval) list" where
  "RNC_items r =
     [(''use_rnc'', PBool (use_rnc r)),
      (''rnc_pretrain'', PBool (rnc_pretrain r)),
      (''load_rnc_pretrain_params'', PBool (load_rnc_pretrain_params r)),
      (''pretrain_update_freq'', pretrain_update_freq r)] @ RNC_other r"

subsection \<open>The framework\<close>

text \<open>
  What the driver obtains from outside itself, by parameter: the interpreter's float
  arithmetic (a literal, the conversion of an integer, the product, \<^verbatim>\<open>int()\<close>),
  \<^verbatim>\<open>os.path.join\<close>, \<^verbatim>\<open>OmegaConf.to_object\<close>, the \<^verbatim>\<open>name\<close> attribute of a
  constraint or validator, \<^verbatim>\<open>len(constraint.data_loader)\<close>, and the layer tree of a
  constructed model.
\<close>

record 'f framework =
  float_literal :: "string \<Rightarrow> 'f"
  float_of_int :: "int \<Rightarrow> 'f"
  float_mul :: "'f \<Rightarrow> 'f \<Rightarrow> 'f"
  int_of_float :: "'f \<Rightarrow> int"
  os_path_join :: "string list \<Rightarrow> string"
  to_object :: "'f pyval \<Rightarrow> 'f pyval"
  attr_name :: "'f pyval \<Rightarrow> string"
  data_loader_len :: "'f pyval \<Rightarrow> nat"
  layers :: "'f pyval \<Rightarrow> module"

subsection \<open>Steps and runs\<close>

datatype 'f event =
    New "'f pyval"
  | Invoke "'f pyval" string
  | SetAttr "'f pyval" string "'f pyval"
  | LibCall string "'f pyval list"

datatype exn = ValueError string | TypeError | FrameworkError

datatype 'f step = Do "'f event" | Throw exn

text \<open>
  A run: the events performed so far, and the steps still to do. A step that raises
  ends the run; the event of a framework call that raised is in the trace, as its
  last element.
\<close>

fun exec :: "('f event list \<Rightarrow> 'f event \<Rightarrow> bool) \<Rightarrow> 'f event list \<Rightarrow> 'f step list
               \<Rightarrow> 'f event list \<times> exn option" where
  "exec raises done [] = (done, None)"
| "exec raises done (Throw e # rest) = (done, Some e)"
| "exec raises done (Do ev # rest) =
     (if raises done ev then (done @ [ev], Some FrameworkError)
      else exec raises (done @ [ev]) rest)"

text \<open>
  A call \<^verbatim>\<open>C(**mapping, k1=v1, ...)\<close>: Python raises \<^verbatim>\<open>TypeError\<close> at the call
  when an unpacked key is also given explicitly.
\<close>

definition unpack_clash :: "(string \<times> 'f pyval) list \<Rightarrow> (string \<times> 'f pyval) list \<Rightarrow> bool" where
  "unpack_clash unpacked explicit = list_ex (\<lambda>k. k \<in> set (map fst explicit)) (map fst unpacked)"

definition construct_unpacked ::
  "string \<Rightarrow> (string \<times> 'f pyval) list \<Rightarrow> (string \<times> 'f pyval) list \<Rightarrow> 'f step" where
  "construct_unpacked cls unpacked explicit =
     (if unpack_clash unpacked explicit then Throw TypeError
      else Do (New (PObj cls [] (unpacked @ explicit))))"

text \<open>\<^verbatim>\<open>str\<close> of an integer, for the f-string \<^verbatim>\<open>f'gpu:{cfg.DEVICE}'\<close>.\<close>

function str_nat :: "nat \<Rightarrow> string" where
  "str_nat n = (if n < 10 then [''0123456789'' ! n]
                else str_nat (n div 10) @ [''0123456789'' ! (n mod 10)])"
  by pat_completeness auto
termination
  by (relation "measure id") auto

declare str_nat.simps [simp del]

definition str_int :: "int \<Rightarrow> string" where
  "str_int i = (if i < 0 then ''-'' @ str_nat (nat (- i)) else str_nat (nat i))"

text \<open>The conditional expression \<^verbatim>\<open>f'gpu:{cfg.DEVICE}' if cfg.DEVICE != -1 else 'cpu'\<close>.\<close>

definition device :: "'f cfg \<Rightarrow> string" where
  "device cfg = (if DEVICE cfg \<noteq> - 1 then ''gpu:'' @ str_int (DEVICE cfg) else ''cpu'')"

subsection \<open>\<^verbatim>\<open>train(cfg)\<close>: the dictionaries and objects it builds\<close>

text \<open>The dataset entries shared by every dataloader dictionary of the file.\<close>

definition dataset_entries :: "'f cfg \<Rightarrow> (string \<times> 'f pyval) list" where
  "dataset_entries cfg =
     [(''name'', PStr ''ExtMoEENSODataset''),
      (''data_dir'', FILE_PATH cfg),
      (''input_keys'', input_keys (MODEL cfg)),
      (''label_keys'', label_keys (DATASET cfg)),
      (''in_len'', in_len (DATASET cfg)),
      (''out_len'', out_len (DATASET cfg)),
      (''in_stride'', in_stride (DATASET cfg)),
      (''out_stride'', out_stride (DATASET cfg)),
      (''train_samples_gap'', train_samples_gap (DATASET cfg)),
      (''eval_samples_gap'', eval_samples_gap (DATASET cfg)),
      (''normalize_sst'', normalize_sst (DATASET cfg))]"

definition batch_sampler :: "'f pyval" where
  "batch_sampler =
     PDict [(''name'', PStr ''BatchSampler''), (''drop_last'', PBool True), (''shuffle'', PBool True)]"

definition train_dataloader_cfg :: "'f cfg \<Rightarrow> 'f pyval" where
  "train_dataloader_cfg cfg =
     PDict [(''dataset'', PDict (dataset_entries cfg)),
            (''sampler'', batch_sampler),
            (''batch_size'', TRAIN_batch_size (TRAIN cfg)),
            (''num_workers'', PInt 8)]"

definition FunctionalLoss :: "string \<Rightarrow> 'f pyval" where
  "FunctionalLoss f = PObj ''ppsci.loss.FunctionalLoss'' [PFun f] []"

definition FunctionalMetric :: "string \<Rightarrow> 'f pyval" where
  "FunctionalMetric f = PObj ''ppsci.metric.FunctionalMetric'' [PFun f] []"

definition sup_constraint :: "'f cfg \<Rightarrow> 'f pyval" where
  "sup_constraint cfg =
     PObj ''ppsci.constraint.SupervisedConstraint'' [train_dataloader_cfg cfg]
       [(''loss'', FunctionalLoss ''enso_metric.train_extformer_moe_func''),
        (''name'', PStr ''Sup'')]"

definition constraint :: "'f framework \<Rightarrow> 'f cfg \<Rightarrow> 'f pyval" where
  "constraint env cfg = PDict [(attr_name env (sup_constraint cfg), sup_constraint cfg)]"

definition ITERS_PER_EPOCH :: "'f framework \<Rightarrow> 'f cfg \<Rightarrow> int" where
  "ITERS_PER_EPOCH env cfg = int (data_loader_len env (sup_constraint cfg))"

definition eval_dataloader_cfg :: "'f cfg \<Rightarrow> 'f pyval" where
  "eval_dataloader_cfg cfg =
     PDict [(''dataset'', PDict (dataset_entries cfg @ [(''training'', PStr ''eval'')])),
            (''batch_size'', EVAL_batch_size (EVAL cfg))]"

definition validator_object :: "'f pyval \<Rightarrow> 'f pyval" where
  "validator_object dataloader_cfg =
     PObj ''ppsci.validate.SupervisedValidator'' [dataloader_cfg]
       [(''loss'', FunctionalLoss ''enso_metric.train_extformer_moe_func''),
        (''metric'', PDict [(''rmse'', FunctionalMetric ''enso_metric.eval_rmse_func'')]),
        (''name'', PStr ''Sup_Validator'')]"

definition sup_validator :: "'f cfg \<Rightarrow> 'f pyval" where
  "sup_validator cfg = validator_object (eval_dataloader_cfg cfg)"

definition validator :: "'f framework \<Rightarrow> 'f cfg \<Rightarrow> 'f pyval" where
  "validator env cfg = PDict [(attr_name env (sup_validator cfg), sup_validator cfg)]"

definition moe_config :: "'f framework \<Rightarrow> 'f cfg \<Rightarrow> 'f pyval" where
  "moe_config env cfg = to_object env (MOE cfg)"

definition rnc_config :: "'f framework \<Rightarrow> 'f cfg \<Rightarrow> 'f pyval" where
  "rnc_config env cfg = to_object env (PDict (RNC_items (RNC cfg)))"

definition model_explicit :: "'f framework \<Rightarrow> 'f cfg \<Rightarrow> (string \<times> 'f pyval) list" where
  "model_explicit env cfg =
     [(''moe_config'', moe_config env cfg), (''rnc_config'', rnc_config env cfg)]"

definition model :: "'f framework \<Rightarrow> 'f cfg \<Rightarrow> 'f pyval" where
  "model env cfg =
     PObj ''ppsci.arch.ExtFormerMoECuboid'' [] (MODEL_items (MODEL cfg) @ model_explicit env cfg)"

definition new_model :: "'f framework \<Rightarrow> 'f cfg \<Rightarrow> 'f step" where
  "new_model env cfg =
     construct_unpacked ''ppsci.arch.ExtFormerMoECuboid''
       (MODEL_items (MODEL cfg)) (model_explicit env cfg)"

definition decay_parameters :: "module \<Rightarrow> string list" where
  "decay_parameters m =
     filter (\<lambda>name. \<not> sublist ''bias'' name) (get_parameter_names m [''nn.LayerNorm''])"

definition decay_group :: "module \<Rightarrow> param list" where
  "decay_group m =
     map snd (filter (\<lambda>(n, p). n \<in> set (decay_parameters m)) (named_parameters m))"

definition no_decay_group :: "module \<Rightarrow> param list" where
  "no_decay_group m =
     map snd (filter (\<lambda>(n, p). n \<notin> set (decay_parameters m)) (named_parameters m))"

definition optimizer_grouped_parameters :: "'f framework \<Rightarrow> 'f cfg \<Rightarrow> 'f pyval list" where
  "optimizer_grouped_parameters env cfg =
     [PDict [(''params'', PList (map PParam (decay_group (layers env (model env cfg))))),
             (''weight_decay'', wd (TRAIN cfg))],
      PDict [(''params'', PList (map PParam (no_decay_group (layers env (model env cfg))))),
             (''weight_decay'', PFloat (float_literal env ''0.0''))]]"

definition lr_scheduler_explicit :: "'f framework \<Rightarrow> 'f cfg \<Rightarrow> (string \<times> 'f pyval) list" where
  "lr_scheduler_explicit env cfg =
     [(''iters_per_epoch'', PInt (ITERS_PER_EPOCH env cfg)),
      (''eta_min'',
         PFloat (float_mul env (min_lr_ratio (TRAIN cfg))
                   (learning_rate (lr_scheduler (TRAIN cfg))))),
      (''warmup_epoch'',
         PInt (int_of_float env
                 (float_mul env (float_literal env ''0.2'')
                    (float_of_int env (epochs (TRAIN cfg))))))]"

definition Cosine :: "'f framework \<Rightarrow> 'f cfg \<Rightarrow> 'f pyval" where
  "Cosine env cfg =
     PObj ''ppsci.optimizer.lr_scheduler.Cosine'' []
       (lr_scheduler_items (lr_scheduler (TRAIN cfg)) @ lr_scheduler_explicit env cfg)"

definition new_Cosine :: "'f framework \<Rightarrow> 'f cfg \<Rightarrow> 'f step" where
  "new_Cosine env cfg =
     construct_unpacked ''ppsci.optimizer.lr_scheduler.Cosine''
       (lr_scheduler_items (lr_scheduler (TRAIN cfg))) (lr_scheduler_explicit env cfg)"

definition lr_scheduler_object :: "'f framework \<Rightarrow> 'f cfg \<Rightarrow> 'f pyval" where
  "lr_scheduler_object env cfg = PRet (Cosine env cfg)"

definition optimizer :: "'f framework \<Rightarrow> 'f cfg \<Rightarrow> 'f pyval" where
  "optimizer env cfg =
     PObj ''paddle.optimizer.AdamW'' [lr_scheduler_object env cfg]
       [(''parameters'', PList (optimizer_grouped_parameters env cfg))]"

definition rnc_sup_constraint :: "'f cfg \<Rightarrow> 'f pyval" where
  "rnc_sup_constraint cfg =
     PObj ''ppsci.constraint.SupervisedConstraint'' [train_dataloader_cfg cfg]
       [(''loss'', FunctionalLoss ''enso_metric.rnc_pretrain_func''),
        (''name'', PStr ''RNCSup'')]"

definition rnc_constraint :: "'f framework \<Rightarrow> 'f cfg \<Rightarrow> 'f pyval" where
  "rnc_constraint env cfg =
     PDict [(attr_name env (rnc_sup_constraint cfg), rnc_sup_constraint cfg)]"

definition rnc_eval_dataloader_cfg :: "'f cfg \<Rightarrow> 'f pyval" where
  "rnc_eval_dataloader_cfg cfg =
     PDict [(''dataset'', PDict (dataset_entries cfg @ [(''training'', PStr ''eval'')])),
            (''sampler'', batch_sampler),
            (''batch_size'', TRAIN_batch_size (TRAIN cfg))]"

definition rnc_sup_validator :: "'f cfg \<Rightarrow> 'f pyval" where
  "rnc_sup_validator cfg =
     PObj ''ppsci.validate.SupervisedValidator'' [rnc_eval_dataloader_cfg cfg]
       [(''loss'', FunctionalLoss ''enso_metric.rnc_pretrain_func''),
        (''metric'',
           PDict [(''rnc_loss'', FunctionalMetric ''enso_metric.eval_rnc_pretrain_func'')]),
        (''name'', PStr ''RNCSup_Validator'')]"

definition rnc_validator :: "'f framework \<Rightarrow> 'f cfg \<Rightarrow> 'f pyval" where
  "rnc_validator env cfg =
     PDict [(attr_name env (rnc_sup_validator cfg), rnc_sup_validator cfg)]"

definition rnc_solver :: "'f framework \<Rightarrow> 'f cfg \<Rightarrow> 'f pyval" where
  "rnc_solver env cfg =
     PObj ''ppsci.solver.Solver''
       [model env cfg,
        rnc_constraint env cfg,
        PStr (os_path_join env [output_dir cfg, ''rnc_pretrain'']),
        optimizer env cfg,
        lr_scheduler_object env cfg,
        PInt (epochs (TRAIN cfg)),
        PInt (ITERS_PER_EPOCH env cfg)]
       [(''update_freq'', pretrain_update_freq (RNC cfg)),
        (''eval_during_train'', eval_during_train (TRAIN cfg)),
        (''seed'', seed cfg),
        (''device'', PStr (device cfg)),
        (''validator'', rnc_validator env cfg),
        (''compute_metric_by_batch'', compute_metric_by_batch (EVAL cfg)),
        (''eval_with_no_grad'', eval_with_no_grad (EVAL cfg))]"

definition pretrained_model_path :: "'f framework \<Rightarrow> 'f cfg \<Rightarrow> 'f pyval" where
  "pretrained_model_path env cfg =
     (if use_rnc (RNC cfg) \<and> rnc_pretrain (RNC cfg)
      then PStr (os_path_join env [output_dir cfg, ''rnc_pretrain'', ''checkpoints'']
                 @ ''/best_model.pdparams'')
      else PNone)"

definition solver :: "'f framework \<Rightarrow> 'f cfg \<Rightarrow> 'f pyval" where
  "solver env cfg =
     PObj ''ppsci.solver.Solver''
       [model env cfg,
        constraint env cfg,
        PStr (output_dir cfg),
        optimizer env cfg,
        lr_scheduler_object env cfg,
        PInt (epochs (TRAIN cfg)),
        PInt (ITERS_PER_EPOCH env cfg)]
       [(''update_freq'', update_freq (TRAIN cfg)),
        (''eval_during_train'', eval_during_train (TRAIN cfg)),
        (''seed'', seed cfg),
        (''device'', PStr (device cfg)),
        (''validator'', validator env cfg),
        (''pretrained_model_path'', pretrained_model_path env cfg),
        (''compute_metric_by_batch'', compute_metric_by_batch (EVAL cfg)),
        (''eval_with_no_grad'', eval_with_no_grad (EVAL cfg))]"

subsection \<open>\<^verbatim>\<open>train(cfg)\<close>: its steps\<close>

text \<open>
  The steps in program order. A constructor call nested in an argument list comes
  before the call it is an argument of. Reads of \<^verbatim>\<open>cfg\<close> and of the model
  (\<^verbatim>\<open>named_children\<close>, \<^verbatim>\<open>named_parameters\<close>, \<^verbatim>\<open>len\<close> of the data loader) and the
  pure conversions (\<^verbatim>\<open>OmegaConf.to_object\<close>, \<^verbatim>\<open>dict\<close>, \<^verbatim>\<open>os.path.join\<close>) are values,
  not steps.
\<close>

definition setup_steps :: "'f framework \<Rightarrow> 'f cfg \<Rightarrow> 'f step list" where
  "setup_steps env cfg =
     [Do (New (FunctionalLoss ''enso_metric.train_extformer_moe_func'')),
      Do (New (sup_constraint cfg)),
      Do (New (FunctionalLoss ''enso_metric.train_extformer_moe_func'')),
      Do (New (FunctionalMetric ''enso_metric.eval_rmse_func'')),
      Do (New (sup_validator cfg)),
      new_model env cfg,
      new_Cosine env cfg,
      Do (Invoke (Cosine env cfg) ''__call__''),
      Do (New (optimizer env cfg))]"

definition rnc_pretrain_steps :: "'f framework \<Rightarrow> 'f cfg \<Rightarrow> 'f step list" where
  "rnc_pretrain_steps env cfg =
     [Do (LibCall ''print'' [PStr ''============= RNC PRETRAIN ============='']),
      Do (SetAttr (model env cfg) ''rnc_pretrain_flag'' (PBool True)),
      Do (New (FunctionalLoss ''enso_metric.rnc_pretrain_func'')),
      Do (New (rnc_sup_constraint cfg)),
      Do (New (FunctionalLoss ''enso_metric.rnc_pretrain_func'')),
      Do (New (FunctionalMetric ''enso_metric.eval_rnc_pretrain_func'')),
      Do (New (rnc_sup_validator cfg)),
      Do (New (rnc_solver env cfg)),
      Do (Invoke (rnc_solver env cfg) ''train''),
      Do (Invoke (rnc_solver env cfg) ''eval''),
      Do (LibCall ''print'' [PStr ''============= RNC PRETRAIN END =============''])]"

definition rnc_steps :: "'f framework \<Rightarrow> 'f cfg \<Rightarrow> 'f step list" where
  "rnc_steps env cfg =
     (if use_rnc (RNC cfg) \<and> rnc_pretrain (RNC cfg)
      then (if \<not> load_rnc_pretrain_params (RNC cfg) then rnc_pretrain_steps env cfg else [])
           @ [Do (LibCall ''print'' [PStr ''============= LOAD RNC PRETRAIN PARAMs ============='']),
              Do (LibCall ''print'' [PStr ''====================================================''])]
      else [])"

definition main_steps :: "'f framework \<Rightarrow> 'f cfg \<Rightarrow> 'f step list" where
  "main_steps env cfg =
     [Do (SetAttr (model env cfg) ''rnc_pretrain_flag'' (PBool False)),
      Do (New (solver env cfg)),
      Do (Invoke (solver env cfg) ''train''),
      Do (Invoke (solver env cfg) ''eval'')]"

definition train :: "'f framework \<Rightarrow> 'f cfg \<Rightarrow> 'f step list" where
  "train env cfg = setup_steps env cfg @ rnc_steps env cfg @ main_steps env cfg"

subsection \<open>\<^verbatim>\<open>evaluate(cfg)\<close> and \<^verbatim>\<open>main(cfg)\<close>\<close>

definition evaluate_dataloader_cfg :: "'f cfg \<Rightarrow> 'f pyval" where
  "evaluate_dataloader_cfg cfg =
     PDict [(''dataset'', PDict (dataset_entries cfg @ [(''training'', PStr ''test'')])),
            (''batch_size'', EVAL_batch_size (EVAL cfg))]"

definition evaluate_validator :: "'f framework \<Rightarrow> 'f cfg \<Rightarrow> 'f pyval" where
  "evaluate_validator env cfg =
     PDict [(attr_name env (validator_object (evaluate_dataloader_cfg cfg)),
             validator_object (evaluate_dataloader_cfg cfg))]"

definition evaluate_solver :: "'f framework \<Rightarrow> 'f cfg \<Rightarrow> 'f pyval" where
  "evaluate_solver env cfg =
     PObj ''ppsci.solver.Solver''
       [model env cfg]
       [(''output_dir'', PStr (output_dir cfg)),
        (''log_freq'', log_freq cfg),
        (''seed'', seed cfg),
        (''device'', PStr (device cfg)),
        (''validator'', evaluate_validator env cfg),
        (''pretrained_model_path'', EVAL_pretrained_model_path (EVAL cfg)),
        (''compute_metric_by_batch'', compute_metric_by_batch (EVAL cfg)),
        (''eval_with_no_grad'', eval_with_no_grad (EVAL cfg))]"

definition evaluate :: "'f framework \<Rightarrow> 'f cfg \<Rightarrow> 'f step list" where
  "evaluate env cfg =
     [Do (New (FunctionalLoss ''enso_metric.train_extformer_moe_func'')),
      Do (New (FunctionalMetric ''enso_metric.eval_rmse_func'')),
      Do (New (validator_object (evaluate_dataloader_cfg cfg))),
      new_model env cfg,
      Do (New (evaluate_solver env cfg)),
      Do (Invoke (evaluate_solver env cfg) ''eval'')]"

definition mode_error :: "string \<Rightarrow> string" where
  "mode_error m =
     ''cfg.mode should in ['' @ [CHR 0x27] @ ''train'' @ [CHR 0x27] @ '', '' @ [CHR 0x27]
       @ ''eval'' @ [CHR 0x27] @ ''], but got '' @ [CHR 0x27] @ m @ [CHR 0x27]"

definition set_device :: "'f cfg \<Rightarrow> 'f event" where
  "set_device cfg = LibCall ''paddle.device.set_device'' [PStr (device cfg)]"

definition main :: "'f framework \<Rightarrow> 'f cfg \<Rightarrow> 'f step list" where
  "main env cfg =
     Do (set_device cfg)
     # (if mode cfg = ''train'' then train env cfg
        else if mode cfg = ''eval'' then evaluate env cfg
        else [Throw (ValueError (mode_error (mode cfg)))])"

subsection \<open>Reading steps, runs and objects\<close>

text \<open>
  The events a step list performs when no framework call raises: the events of its
  \<open>Do\<close> steps up to the first \<open>Throw\<close>.
\<close>

fun planned :: "'f step list \<Rightarrow> 'f event list" where
  "planned [] = []"
| "planned (Throw e # rest) = []"
| "planned (Do ev # rest) = ev # planned rest"

fun is_Do :: "'f step \<Rightarrow> bool" where
  "is_Do (Do ev) = True"
| "is_Do (Throw e) = False"

text \<open>The class and the constructor arguments of an object.\<close>

fun class_of :: "'f pyval \<Rightarrow> string" where
  "class_of (PObj c a k) = c"
| "class_of v = []"

fun args_of :: "'f pyval \<Rightarrow> 'f pyval list" where
  "args_of (PObj c a k) = a"
| "args_of v = []"

fun kwargs_of :: "'f pyval \<Rightarrow> (string \<times> 'f pyval) list" where
  "kwargs_of (PObj c a k) = k"
| "kwargs_of v = []"

text \<open>
  A dictionary entry, and an entry of the \<^verbatim>\<open>"dataset"\<close> dictionary of a dataloader
  dictionary.
\<close>

fun item :: "'f pyval \<Rightarrow> string \<Rightarrow> 'f pyval option" where
  "item (PDict kvs) k = map_of kvs k"
| "item v k = None"

definition dataset_item :: "'f pyval \<Rightarrow> string \<Rightarrow> 'f pyval option" where
  "dataset_item dataloader_cfg k = Option.bind (item dataloader_cfg ''dataset'') (\<lambda>d. item d k)"

text \<open>An event that constructs a solver or calls a method of one.\<close>

definition is_Solver :: "'f pyval \<Rightarrow> bool" where
  "is_Solver obj = (class_of obj = ''ppsci.solver.Solver'')"

fun solver_event :: "'f event \<Rightarrow> bool" where
  "solver_event (New obj) = is_Solver obj"
| "solver_event (Invoke obj m) = is_Solver obj"
| "solver_event ev = False"

text \<open>
  The events of \<^verbatim>\<open>train(cfg)\<close> up to the construction of the optimizer, and all its
  events, when neither unpacking call raises.
\<close>

definition setup_events :: "'f framework \<Rightarrow> 'f cfg \<Rightarrow> 'f event list" where
  "setup_events env cfg =
     [New (FunctionalLoss ''enso_metric.train_extformer_moe_func''),
      New (sup_constraint cfg),
      New (FunctionalLoss ''enso_metric.train_extformer_moe_func''),
      New (FunctionalMetric ''enso_metric.eval_rmse_func''),
      New (sup_validator cfg),
      New (model env cfg),
      New (Cosine env cfg),
      Invoke (Cosine env cfg) ''__call__'',
      New (optimizer env cfg)]"

definition train_events :: "'f framework \<Rightarrow> 'f cfg \<Rightarrow> 'f event list" where
  "train_events env cfg =
     setup_events env cfg @ planned (rnc_steps env cfg) @ planned (main_steps env cfg)"

text \<open>All the events of \<^verbatim>\<open>evaluate(cfg)\<close>, when the unpacking call does not raise.\<close>

definition evaluate_events :: "'f framework \<Rightarrow> 'f cfg \<Rightarrow> 'f event list" where
  "evaluate_events env cfg =
     [New (FunctionalLoss ''enso_metric.train_extformer_moe_func''),
      New (FunctionalMetric ''enso_metric.eval_rmse_func''),
      New (validator_object (evaluate_dataloader_cfg cfg)),
      New (model env cfg),
      New (evaluate_solver env cfg),
      Invoke (evaluate_solver env cfg) ''eval'']"

subsection \<open>The driver's own effect on the model\<close>

text \<open>
  The state of the model object: the values of its parameter tensors and its
  attributes.
\<close>

record ('f, 'v) model_state =
  tensors :: "param \<Rightarrow> 'v"
  attributes :: "string \<Rightarrow> 'f pyval option"

text \<open>
  The effect of one event on the model. The assignment \<^verbatim>\<open>model.attr = value\<close> is the
  driver's own statement: it writes that attribute of the model. Every other event
  is a call into the framework; what it does to the model is the framework's, and is
  a parameter \<open>fw\<close>.
\<close>

fun step_effect ::
  "('f event \<Rightarrow> ('f, 'v) model_state \<Rightarrow> ('f, 'v) model_state) \<Rightarrow> 'f pyval \<Rightarrow> 'f event
     \<Rightarrow> ('f, 'v) model_state \<Rightarrow> ('f, 'v) model_state" where
  "step_effect fw target (SetAttr obj a v) s =
     (if obj = target then s\<lparr>attributes := (attributes s)(a \<mapsto> v)\<rparr> else s)"
| "step_effect fw target ev s = fw ev s"

definition run_effect ::
  "('f event \<Rightarrow> ('f, 'v) model_state \<Rightarrow> ('f, 'v) model_state) \<Rightarrow> 'f pyval \<Rightarrow> 'f event list
     \<Rightarrow> ('f, 'v) model_state \<Rightarrow> ('f, 'v) model_state" where
  "run_effect fw target evs s = foldl (\<lambda>s ev. step_effect fw target ev s) s evs"

text \<open>
  An event that is a statement of the driver itself, and an event that is
  \<^verbatim>\<open>train()\<close> or \<^verbatim>\<open>eval()\<close> of a solver.
\<close>

fun own_write :: "'f event \<Rightarrow> bool" where
  "own_write (SetAttr obj a v) = True"
| "own_write ev = False"

fun training_call :: "'f event \<Rightarrow> bool" where
  "training_call (Invoke obj m) = (is_Solver obj \<and> (m = ''train'' \<or> m = ''eval''))"
| "training_call ev = False"

text \<open>
  The events \<^verbatim>\<open>train(cfg)\<close> is made of: constructor calls of framework classes,
  \<^verbatim>\<open>train()\<close> and \<^verbatim>\<open>eval()\<close> of a solver, the call of the schedule object,
  \<^verbatim>\<open>print\<close>, and the assignment of a boolean to \<^verbatim>\<open>model.rnc_pretrain_flag\<close>.
\<close>

fun is_PBool :: "'f pyval \<Rightarrow> bool" where
  "is_PBool (PBool b) = True"
| "is_PBool v = False"

definition framework_classes :: "string list" where
  "framework_classes =
     [''ppsci.loss.FunctionalLoss'', ''ppsci.metric.FunctionalMetric'',
      ''ppsci.constraint.SupervisedConstraint'', ''ppsci.validate.SupervisedValidator'',
      ''ppsci.arch.ExtFormerMoECuboid'', ''ppsci.optimizer.lr_scheduler.Cosine'',
      ''paddle.optimizer.AdamW'', ''ppsci.solver.Solver'']"

fun delegated :: "'f framework \<Rightarrow> 'f cfg \<Rightarrow> 'f event \<Rightarrow> bool" where
  "delegated env cfg (New obj) = (class_of obj \<in> set framework_classes)"
| "delegated env cfg (Invoke obj m) =
     ((is_Solver obj \<and> (m = ''train'' \<or> m = ''eval''))
      \<or> (obj = Cosine env cfg \<and> m = ''__call__''))"
| "delegated env cfg (LibCall f args) = (f = ''print'')"
| "delegated env cfg (SetAttr obj a v) =
     (obj = model env cfg \<and> a = ''rnc_pretrain_flag'' \<and> is_PBool v)"

subsection \<open>A sample configuration and framework\<close>

text \<open>
  A concrete configuration and a concrete framework, to run the definitions on:
  floats are exact rationals, \<^verbatim>\<open>os.path.join\<close> is the POSIX one, the model has a
  layer normalisation and a linear layer. They are inputs for evaluation only; no
  general statement below depends on them.
\<close>

definition posix_join2 :: "string \<Rightarrow> string \<Rightarrow> string" where
  "posix_join2 path b =
     (if b \<noteq> [] \<and> hd b = CHR ''/'' then b
      else if path = [] \<or> last path = CHR ''/'' then path @ b
      else path @ ''/'' @ b)"

fun posix_join :: "string list \<Rightarrow> string" where
  "posix_join [] = []"
| "posix_join (a # p) = foldl posix_join2 a p"

definition sample_layers :: module where
  "sample_layers =
     Module [''ExtFormerMoECuboid'', ''nn.Layer'']
       [(''norm'', Module [''nn.LayerNorm'', ''nn.Layer''] []
                     [(''weight'', Some (Param 0)), (''bias'', Some (Param 1))]),
        (''proj'', Module [''nn.Linear'', ''nn.Layer''] []
                     [(''weight'', Some (Param 2)), (''bias'', Some (Param 3))])]
       [(''pos_embed'', Some (Param 4))]"

definition sample_framework :: "rat framework" where
  "sample_framework =
     \<lparr>float_literal = (\<lambda>s. if s = ''0.2'' then 1 / 5 else 0),
      float_of_int = of_int,
      float_mul = (\<lambda>a b. a * b),
      int_of_float = (\<lambda>x. if 0 \<le> x then \<lfloor>x\<rfloor> else \<lceil>x\<rceil>),
      os_path_join = posix_join,
      to_object = (\<lambda>v. v),
      attr_name = (\<lambda>v. case map_of (kwargs_of v) ''name'' of Some (PStr n) \<Rightarrow> n | _ \<Rightarrow> []),
      data_loader_len = (\<lambda>v. 100),
      layers = (\<lambda>v. sample_layers)\<rparr>"

definition sample_cfg :: "rat cfg" where
  "sample_cfg =
     \<lparr>FILE_PATH = PStr ''./data'',
      MODEL = \<lparr>input_keys = PList [PStr ''sst_data''], MODEL_other = [(''num_experts'', PInt 4)]\<rparr>,
      DATASET = \<lparr>label_keys = PList [PStr ''sst_target''], in_len = PInt 12, out_len = PInt 14,
                  in_stride = PInt 1, out_stride = PInt 1, train_samples_gap = PInt 2,
                  eval_samples_gap = PInt 1, normalize_sst = PBool True\<rparr>,
      TRAIN = \<lparr>TRAIN_batch_size = PInt 16, wd = PFloat (1 / 100000),
                lr_scheduler = \<lparr>learning_rate = 1 / 1000,
                                 lr_scheduler_other = [(''epochs'', PInt 10), (''by_epoch'', PBool True)]\<rparr>,
                min_lr_ratio = 1 / 1000, epochs = 10, update_freq = PInt 1,
                eval_during_train = PBool True\<rparr>,
      EVAL = \<lparr>EVAL_batch_size = PInt 1, compute_metric_by_batch = PBool False,
               eval_with_no_grad = PBool True, EVAL_pretrained_model_path = PStr ''./checkpoint''\<rparr>,
      RNC = \<lparr>use_rnc = True, rnc_pretrain = True, load_rnc_pretrain_params = False,
              pretrain_update_freq = PInt 1, RNC_other = []\<rparr>,
      MOE = PDict [(''use_moe'', PBool True)],
      output_dir = ''./out'',
      seed = PInt 0,
      log_freq = PInt 20,
      DEVICE = 0,
      mode = ''train''\<rparr>"

definition sample_cfg_no_rnc :: "rat cfg" where
  "sample_cfg_no_rnc = sample_cfg\<lparr>RNC := (RNC sample_cfg)\<lparr>use_rnc := False\<rparr>\<rparr>"

text \<open>Variants of the sample configuration.\<close>

definition sample_cfg_load :: "rat cfg" where
  "sample_cfg_load = sample_cfg\<lparr>RNC := (RNC sample_cfg)\<lparr>load_rnc_pretrain_params := True\<rparr>\<rparr>"

definition sample_cfg_eval :: "rat cfg" where
  "sample_cfg_eval = sample_cfg\<lparr>DEVICE := - 1, mode := ''eval''\<rparr>"

definition sample_cfg_predict :: "rat cfg" where
  "sample_cfg_predict = sample_cfg\<lparr>mode := ''predict''\<rparr>"

text \<open>
  A layer tree outside the naming discipline: a child whose name contains a dot, so
  that two slots have the same qualified name.
\<close>

definition colliding_layers :: module where
  "colliding_layers =
     Module [''Net'', ''nn.Layer'']
       [(''a.b'', Module [''nn.LayerNorm'', ''nn.Layer''] [] [(''weight'', Some (Param 0))]),
        (''a'', Module [''Block'', ''nn.Layer'']
                  [(''b'', Module [''nn.Linear'', ''nn.Layer''] [] [(''weight'', Some (Param 1))])]
                  [])]
       []"

text \<open>
  A layer tree within the naming discipline in which one parameter object is
  registered twice, in a linear layer and in a layer normalisation.
\<close>

definition tied_layers :: module where
  "tied_layers =
     Module [''Net'', ''nn.Layer'']
       [(''proj'', Module [''nn.Linear'', ''nn.Layer''] [] [(''weight'', Some (Param 0))]),
        (''norm'', Module [''nn.LayerNorm'', ''nn.Layer''] [] [(''weight'', Some (Param 0))])]
       []"

text \<open>
  Two frameworks, by their effect on the model: one whose solver constructor loads
  the checkpoint named by \<^verbatim>\<open>pretrained_model_path\<close> into the model, and one that
  changes parameters in \<^verbatim>\<open>train()\<close> and \<^verbatim>\<open>eval()\<close> of a solver only; and a model
  state to start from.
\<close>

definition loading_effect :: "'f event \<Rightarrow> ('f, int) model_state \<Rightarrow> ('f, int) model_state" where
  "loading_effect ev s =
     (case ev of
        New obj \<Rightarrow>
          (case map_of (kwargs_of obj) ''pretrained_model_path'' of
             Some (PStr path) \<Rightarrow> if is_Solver obj then s\<lparr>tensors := (\<lambda>p. 1)\<rparr> else s
           | _ \<Rightarrow> s)
      | _ \<Rightarrow> s)"

definition training_effect :: "'f event \<Rightarrow> ('f, int) model_state \<Rightarrow> ('f, int) model_state" where
  "training_effect ev s =
     (if training_call ev then s\<lparr>tensors := (\<lambda>p. tensors s p + 1)\<rparr> else s)"

definition fresh_model :: "(rat, int) model_state" where
  "fresh_model = \<lparr>tensors = (\<lambda>p. 0), attributes = Map.empty\<rparr>"

section \<open>Facts about layer trees\<close>

text \<open>
  \<^verbatim>\<open>get_parameter_names\<close> against its description: prefixing the slots of a child
  with the child commutes with taking names and filtering, and the filter on the
  child is constant over the child's names.
\<close>

lemma child_names:
  "map qualified_name
     (filter (\<lambda>s. \<not> under_forbidden types s) (map (below (c, ch)) ss)) =
   map (qualify c)
     (filter (\<lambda>n. \<not> isinstance ch types)
        (map qualified_name (filter (\<lambda>s. \<not> under_forbidden types s) ss)))"
  by (induction ss) auto

lemma own_names:
  "map qualified_name
     (filter (\<lambda>s. \<not> under_forbidden types s) (map (\<lambda>(k, p). ([], k, p)) params)) =
   map fst params"
  by (induction params) auto

lemma get_parameter_names_unforbidden:
  "get_parameter_names m types = unforbidden_names m types"
proof (induction m types rule: get_parameter_names.induct)
  case (1 cls children params types)
  let ?F = "\<lambda>(name, child).
                map (qualify name)
                  (filter (\<lambda>n. \<not> isinstance child types)
                     (get_parameter_names child types))"
  let ?G = "\<lambda>x. map qualified_name (filter (\<lambda>s. \<not> under_forbidden types s)
              ((\<lambda>(c, ch). map (below (c, ch)) (slots ch)) x))"
  have each: "?F x = ?G x" if "x \<in> set children" for x
  proof -
    obtain c ch where x: "x = (c, ch)" by (cases x)
    have "get_parameter_names ch types = unforbidden_names ch types"
      using "1.IH"[OF that x[symmetric]] .
    then show ?thesis
      by (simp add: x child_names unforbidden_names_def)
  qed
  have kids: "concat (map ?F children) = concat (map ?G children)"
    by (rule arg_cong[where f = concat], rule map_cong[OF refl]) (rule each)
  have split: "unforbidden_names (Module cls children params) types =
      concat (map ?G children) @
      map qualified_name
        (filter (\<lambda>s. \<not> under_forbidden types s) (map (\<lambda>(k, p). ([], k, p)) params))"
    by (simp add: unforbidden_names_def filter_concat map_concat comp_def)
  have "get_parameter_names (Module cls children params) types =
      concat (map ?F children) @ map fst params"
    by simp
  with kids own_names[of types params] split show ?case by simp
qed

text \<open>
  In a layer tree with the naming discipline a qualified name determines the chain
  of layers it goes through: the first dot ends the name of the child.
\<close>

lemma dot_split:
  assumes "a @ CHR ''.'' # x = b @ CHR ''.'' # y" "CHR ''.'' \<notin> set a" "CHR ''.'' \<notin> set b"
  shows "a = b \<and> x = y"
proof -
  have "takeWhile (\<lambda>c. c \<noteq> CHR ''.'') (a @ CHR ''.'' # x) = a"
    using assms(2) by (subst takeWhile_append2) auto
  moreover have "takeWhile (\<lambda>c. c \<noteq> CHR ''.'') (b @ CHR ''.'' # y) = b"
    using assms(3) by (subst takeWhile_append2) auto
  ultimately have "a = b" using assms(1) by simp
  with assms(1) show ?thesis by simp
qed

lemma slots_cases:
  assumes "s \<in> set (slots (Module cls children params))"
  obtains (child) c ch s' where "(c, ch) \<in> set children" "s' \<in> set (slots ch)" "s = below (c, ch) s'"
    | (own) k p where "(k, p) \<in> set params" "s = ([], k, p)"
  using assms by (auto simp del: below.simps)

lemma qualified_name_below:
  "qualified_name (below (c, ch) s) = c @ CHR ''.'' # qualified_name s"
  by (cases s) (simp add: qualify_def)

lemma well_named_child:
  "well_named (Module cls children params) \<Longrightarrow> (c, ch) \<in> set children \<Longrightarrow>
     c \<noteq> [] \<and> CHR ''.'' \<notin> set c \<and> well_named ch"
  by (auto simp: list_all_iff)

lemma well_named_key:
  "well_named (Module cls children params) \<Longrightarrow> (k, p) \<in> set params \<Longrightarrow> CHR ''.'' \<notin> set k"
  by (auto simp: list_all_iff)

lemma well_named_distinct:
  "well_named (Module cls children params) \<Longrightarrow> (c, ch) \<in> set children \<Longrightarrow>
     (c, ch') \<in> set children \<Longrightarrow> ch = ch'"
  by (auto dest: eq_key_imp_eq_value)

lemma slot_name_determines:
  "well_named m \<Longrightarrow> s \<in> set (slots m) \<Longrightarrow> t \<in> set (slots m) \<Longrightarrow>
     qualified_name s = qualified_name t \<Longrightarrow> fst s = fst t"
proof (induction m arbitrary: s t rule: slots.induct)
  case (1 cls children params)
  note wn = "1.prems"(1) and same = "1.prems"(4)
  from "1.prems"(2) show ?case
  proof (cases rule: slots_cases)
    case (child c ch s')
    note s = this
    from "1.prems"(3) show ?thesis
    proof (cases rule: slots_cases)
      case (child c2 ch2 t')
      note t = this
      have eq: "c @ CHR ''.'' # qualified_name s' = c2 @ CHR ''.'' # qualified_name t'"
        using same s(3) t(3) by (simp only: qualified_name_below)
      have names: "c = c2 \<and> qualified_name s' = qualified_name t'"
        using dot_split[OF eq] well_named_child[OF wn s(1)] well_named_child[OF wn t(1)]
        by blast
      then have layer: "ch = ch2"
        using well_named_distinct[OF wn s(1)] t(1) by blast
      have "fst s' = fst t'"
        using "1.IH"[OF s(1) refl _ s(2)] well_named_child[OF wn s(1)] t(2) names layer
        by blast
      with names layer show ?thesis
        using s(3) t(3) by (cases s'; cases t') simp
    next
      case (own k p)
      have "CHR ''.'' \<in> set (qualified_name s)"
        using s(3) by (simp add: qualified_name_below)
      moreover have "CHR ''.'' \<notin> set (qualified_name t)"
        using own well_named_key[OF wn] by auto
      ultimately show ?thesis using same by simp
    qed
  next
    case (own k p)
    note s = this
    from "1.prems"(3) show ?thesis
    proof (cases rule: slots_cases)
      case (child c2 ch2 t')
      have "CHR ''.'' \<in> set (qualified_name t)"
        using child(3) by (simp add: qualified_name_below)
      moreover have "CHR ''.'' \<notin> set (qualified_name s)"
        using s well_named_key[OF wn] by auto
      ultimately show ?thesis using same by simp
    next
      case (own k2 p2)
      then show ?thesis using s by simp
    qed
  qed
qed


lemma under_forbidden_chain:
  "fst s = fst t \<Longrightarrow> under_forbidden types s = under_forbidden types t"
  by (cases s; cases t) simp

lemma forbidden_name_excluded:
  assumes "well_named m" "s \<in> set (slots m)" "under_forbidden types s"
  shows "qualified_name s \<notin> set (get_parameter_names m types)"
proof
  assume "qualified_name s \<in> set (get_parameter_names m types)"
  then obtain t where t: "t \<in> set (slots m)" "\<not> under_forbidden types t"
      "qualified_name t = qualified_name s"
    by (auto simp: get_parameter_names_unforbidden unforbidden_names_def)
  have "fst s = fst t"
    using slot_name_determines[OF assms(1) assms(2) t(1)] t(3) by simp
  with assms(3) t(2) show False
    using under_forbidden_chain by blast
qed

text \<open>
  \<^verbatim>\<open>named_parameters()\<close> yields registered parameters, each object once; so the two
  groups, a filter and its complement, split them.
\<close>

lemma yield_params_subset:
  "(n, p) \<in> set (yield_params seen xs) \<Longrightarrow> (n, Some p) \<in> set xs \<and> p \<notin> set seen"
  by (induction seen xs rule: yield_params.induct) (auto split: if_splits)

lemma yield_params_distinct: "distinct (map snd (yield_params seen xs))"
proof (induction seen xs rule: yield_params.induct)
  case (3 params_set name p rest)
  have "p \<notin> snd ` set (yield_params (p # params_set) rest)"
    using yield_params_subset[of _ p "p # params_set" rest] by auto
  with 3 show ?case by simp
qed simp_all

lemma named_parameters_distinct: "distinct (map snd (named_parameters m))"
  by (simp add: named_parameters_def yield_params_distinct)

lemma split_distinct:
  "distinct (map f ys) \<Longrightarrow>
     distinct (map f (filter P ys) @ map f (filter (\<lambda>y. \<not> P y) ys))"
  by (induction ys) auto

lemma groups_distinct: "distinct (decay_group m @ no_decay_group m)"
proof -
  have "distinct (map snd (filter (\<lambda>(n, p). n \<in> set (decay_parameters m)) (named_parameters m))
        @ map snd (filter (\<lambda>y. \<not> (\<lambda>(n, p). n \<in> set (decay_parameters m)) y) (named_parameters m)))"
    by (rule split_distinct) (rule named_parameters_distinct)
  then show ?thesis
    by (simp add: decay_group_def no_decay_group_def case_prod_unfold)
qed

lemma groups_cover:
  "set (decay_group m) \<union> set (no_decay_group m) = snd ` set (named_parameters m)"
  unfolding decay_group_def no_decay_group_def by force

lemma in_decay_group:
  "(n, p) \<in> set (named_parameters m) \<Longrightarrow> n \<in> set (decay_parameters m) \<Longrightarrow>
     p \<in> set (decay_group m)"
  unfolding decay_group_def by force

lemma in_no_decay_group:
  "(n, p) \<in> set (named_parameters m) \<Longrightarrow> n \<notin> set (decay_parameters m) \<Longrightarrow>
     p \<in> set (no_decay_group m)"
  unfolding no_decay_group_def by force

lemma bias_not_decayed: "sublist ''bias'' n \<Longrightarrow> n \<notin> set (decay_parameters m)"
  by (simp add: decay_parameters_def)

lemma layer_norm_not_decayed:
  "well_named m \<Longrightarrow> s \<in> set (slots m) \<Longrightarrow> under_forbidden [''nn.LayerNorm''] s \<Longrightarrow>
     qualified_name s \<notin> set (decay_parameters m)"
  using forbidden_name_excluded[of m s "[''nn.LayerNorm'']"] by (simp add: decay_parameters_def)

text \<open>
  The names \<^verbatim>\<open>named_parameters()\<close> builds from prefixes are the qualified names of
  the slots.
\<close>

lemma named_slots_prefix:
  "well_named m \<Longrightarrow> pre \<noteq> [] \<Longrightarrow>
     named_slots pre m = map (\<lambda>(n, p). (pre @ CHR ''.'' # n, p)) (named_slots [] m)"
proof (induction m arbitrary: pre rule: slots.induct)
  case (1 cls children params)
  note wn = "1.prems"(1)
  have own: "map (\<lambda>(k, p). (join_prefix pre k, p)) params =
      map (\<lambda>(n, p). (pre @ CHR ''.'' # n, p)) (map (\<lambda>(k, p). (join_prefix [] k, p)) params)"
    using "1.prems"(2) by (simp add: join_prefix_def case_prod_unfold)
  have each: "(\<lambda>(c, ch). named_slots (join_prefix pre c) ch) x =
      (\<lambda>(c, ch). map (\<lambda>(n, p). (pre @ CHR ''.'' # n, p)) (named_slots (join_prefix [] c) ch)) x"
    if "x \<in> set children" for x
  proof -
    obtain c ch where x: "x = (c, ch)" by (cases x)
    have c: "c \<noteq> []" "well_named ch"
      using well_named_child[OF wn] that x by auto
    have a: "named_slots (pre @ CHR ''.'' # c) ch =
        map (\<lambda>(n, p). ((pre @ CHR ''.'' # c) @ CHR ''.'' # n, p)) (named_slots [] ch)"
      using "1.IH"[OF that x[symmetric] c(2), of "pre @ CHR ''.'' # c"] by simp
    have b: "named_slots c ch = map (\<lambda>(n, p). (c @ CHR ''.'' # n, p)) (named_slots [] ch)"
      using "1.IH"[OF that x[symmetric] c(2) c(1)] .
    show ?thesis
      using "1.prems"(2) by (simp add: x join_prefix_def a b case_prod_unfold)
  qed
  have kids: "concat (map (\<lambda>(c, ch). named_slots (join_prefix pre c) ch) children) =
      concat (map (\<lambda>(c, ch). map (\<lambda>(n, p). (pre @ CHR ''.'' # n, p))
                 (named_slots (join_prefix [] c) ch)) children)"
    by (rule arg_cong[where f = concat], rule map_cong[OF refl]) (rule each)
  show ?case
    apply (simp only: named_slots.simps)
    apply (simp only: own kids)
    apply (simp add: map_concat comp_def case_prod_unfold)
    done
qed

lemma named_slots_slots:
  "well_named m \<Longrightarrow>
     set (named_slots [] m) = (\<lambda>s. (qualified_name s, snd (snd s))) ` set (slots m)"
proof (induction m rule: slots.induct)
  case (1 cls children params)
  note wn = "1.prems"(1)
  have each: "set (named_slots (join_prefix [] c) ch) =
      (\<lambda>s. (qualified_name s, snd (snd s))) ` below (c, ch) ` set (slots ch)"
    if "(c, ch) \<in> set children" for c ch
  proof -
    have c: "c \<noteq> []" "well_named ch"
      using well_named_child[OF wn that] by auto
    have "named_slots c ch = map (\<lambda>(n, p). (c @ CHR ''.'' # n, p)) (named_slots [] ch)"
      using named_slots_prefix[OF c(2) c(1)] .
    moreover have "set (named_slots [] ch) =
        (\<lambda>s. (qualified_name s, snd (snd s))) ` set (slots ch)"
      using "1.IH"[OF that refl c(2)] .
    moreover have "(\<lambda>s. (qualified_name s, snd (snd s))) (below (c, ch) s) =
        (\<lambda>(n, p). (c @ CHR ''.'' # n, p)) ((\<lambda>s. (qualified_name s, snd (snd s))) s)" for s
      by (cases s) (simp add: qualify_def)
    ultimately show ?thesis
      by (simp add: join_prefix_def image_image del: below.simps)
  qed
  let ?G = "\<lambda>s. (qualified_name s, snd (snd s))"
  have L: "set (named_slots [] (Module cls children params)) =
      set params \<union> (\<Union>x \<in> set children. set (named_slots (join_prefix [] (fst x)) (snd x)))"
    by (auto simp: join_prefix_def)
  have R: "set (slots (Module cls children params)) =
      (\<Union>x \<in> set children. below x ` set (slots (snd x)))
      \<union> (\<lambda>(k, p). ([], k, p)) ` set params"
    by (auto simp del: below.simps)
  have own: "?G ` (\<lambda>(k, p). ([], k, p)) ` set params = set params"
    by force
  have kids: "(\<Union>x \<in> set children. set (named_slots (join_prefix [] (fst x)) (snd x))) =
      (\<Union>x \<in> set children. ?G ` below x ` set (slots (snd x)))"
    by (rule SUP_cong[OF refl]) (use each in \<open>auto simp del: below.simps\<close>)
  have "?G ` set (slots (Module cls children params)) =
      (\<Union>x \<in> set children. ?G ` below x ` set (slots (snd x))) \<union> set params"
    unfolding R image_Un own by (simp only: image_UN)
  then show ?case
    unfolding L kids by (simp only: Un_commute)
qed

lemma named_parameters_slot:
  assumes "well_named m" "(n, p) \<in> set (named_parameters m)"
  shows "\<exists>s \<in> set (slots m). qualified_name s = n \<and> snd (snd s) = Some p"
proof -
  have "(n, Some p) \<in> set (named_slots [] m)"
    using assms(2) yield_params_subset unfolding named_parameters_def by blast
  then show ?thesis
    unfolding named_slots_slots[OF assms(1)] by auto
qed

text \<open>
  Without weight tying every registered parameter is yielded under the qualified
  name of its slot, so a parameter under a layer normalisation is not decayed.
\<close>

lemma yield_params_first:
  assumes "(n, Some p) \<in> set xs" "p \<notin> set seen"
    and "\<And>n'. (n', Some p) \<in> set xs \<Longrightarrow> n' = n"
  shows "(n, p) \<in> set (yield_params seen xs)"
  using assms
proof (induction seen xs rule: yield_params.induct)
  case (1 params_set)
  then show ?case by simp
next
  case (2 params_set name rest)
  from "2.prems"(1) have in_rest: "(n, Some p) \<in> set rest" by simp
  have "(n, p) \<in> set (yield_params params_set rest)"
  proof (rule "2.IH"[OF in_rest "2.prems"(2)])
    fix n' assume "(n', Some p) \<in> set rest"
    then have "(n', Some p) \<in> set ((name, None) # rest)" by simp
    then show "n' = n" by (rule "2.prems"(3))
  qed
  then show ?case by simp
next
  case (3 params_set name q rest)
  show ?case
  proof (cases "q = p")
    case True
    have "(name, Some p) \<in> set ((name, Some q) # rest)" using True by simp
    then have "name = n" by (rule "3.prems"(3))
    with True "3.prems"(2) show ?thesis by simp
  next
    case False
    with "3.prems"(1) have in_rest: "(n, Some p) \<in> set rest" by simp
    have uniq: "n' = n" if "(n', Some p) \<in> set rest" for n'
    proof -
      from that have "(n', Some p) \<in> set ((name, Some q) # rest)" by simp
      then show ?thesis by (rule "3.prems"(3))
    qed
    show ?thesis
    proof (cases "q \<in> set params_set")
      case True
      have "(n, p) \<in> set (yield_params params_set rest)"
        by (rule "3.IH"(1)[OF True in_rest "3.prems"(2) uniq])
      with True show ?thesis by simp
    next
      case notin: False
      have fresh: "p \<notin> set (q # params_set)" using False "3.prems"(2) by simp
      have "(n, p) \<in> set (yield_params (q # params_set) rest)"
        by (rule "3.IH"(2)[OF notin in_rest fresh uniq])
      with notin show ?thesis by simp
    qed
  qed
qed

lemma untied_same_slot:
  assumes "untied m" "s \<in> set (slots m)" "t \<in> set (slots m)"
    "snd (snd s) = Some p" "snd (snd t) = Some p"
  shows "s = t"
proof -
  let ?f = "\<lambda>s :: slot. snd (snd s)"
  have "inj_on (the \<circ> ?f) (set (filter (\<lambda>x. ?f x \<noteq> None) (slots m)))"
    using assms(1) by (simp add: untied_def map_filter_def distinct_map)
  moreover have "s \<in> set (filter (\<lambda>x. ?f x \<noteq> None) (slots m))"
    "t \<in> set (filter (\<lambda>x. ?f x \<noteq> None) (slots m))"
    using assms(2-5) by auto
  moreover have "(the \<circ> ?f) s = (the \<circ> ?f) t"
    using assms(4,5) by simp
  ultimately show ?thesis by (meson inj_onD)
qed

lemma untied_yielded:
  assumes wn: "well_named m" and un: "untied m"
    and s: "s \<in> set (slots m)" "snd (snd s) = Some p"
  shows "(qualified_name s, p) \<in> set (named_parameters m)"
proof -
  have image: "set (named_slots [] m) = (\<lambda>s. (qualified_name s, snd (snd s))) ` set (slots m)"
    by (rule named_slots_slots[OF wn])
  have here: "(qualified_name s, Some p) \<in> set (named_slots [] m)"
    unfolding image using s by force
  have only: "\<forall>n'. (n', Some p) \<in> set (named_slots [] m) \<longrightarrow> n' = qualified_name s"
  proof (intro allI impI)
    fix n' assume "(n', Some p) \<in> set (named_slots [] m)"
    then obtain t where t: "t \<in> set (slots m)" "qualified_name t = n'" "snd (snd t) = Some p"
      unfolding image by auto
    from untied_same_slot[OF un s(1) t(1) s(2) t(3)] t(2) show "n' = qualified_name s"
      by simp
  qed
  have "(qualified_name s, p) \<in> set (yield_params [] (named_slots [] m))"
    by (rule yield_params_first[OF here]) (use only in simp_all)
  then show ?thesis
    by (simp add: named_parameters_def)
qed

lemma groups_disjoint: "p \<in> set (no_decay_group m) \<Longrightarrow> p \<notin> set (decay_group m)"
  using groups_distinct[of m] by auto

lemma untied_layer_norm:
  assumes "well_named m" "untied m" "s \<in> set (slots m)" "snd (snd s) = Some p"
    "under_forbidden [''nn.LayerNorm''] s"
  shows "(qualified_name s, p) \<in> set (named_parameters m)
     \<and> p \<in> set (no_decay_group m) \<and> p \<notin> set (decay_group m)"
proof -
  have y: "(qualified_name s, p) \<in> set (named_parameters m)"
    by (rule untied_yielded[OF assms(1-4)])
  have "qualified_name s \<notin> set (decay_parameters m)"
    by (rule layer_norm_not_decayed[OF assms(1,3,5)])
  with y have "p \<in> set (no_decay_group m)"
    by (rule in_no_decay_group)
  with y groups_disjoint show ?thesis by blast
qed

lemma tied_facts:
  "well_named tied_layers"
  "\<not> untied tied_layers"
  "named_parameters tied_layers = [(''proj.weight'', Param 0)]"
  "decay_parameters tied_layers = [''proj.weight'']"
  "decay_group tied_layers = [Param 0]"
  "no_decay_group tied_layers = []"
proof -
  show "well_named tied_layers"
    by (simp add: tied_layers_def)
  show "\<not> untied tied_layers"
    by (simp add: untied_def tied_layers_def map_filter_def)
  show np: "named_parameters tied_layers = [(''proj.weight'', Param 0)]"
    by (simp add: named_parameters_def tied_layers_def join_prefix_def)
  have gpn: "get_parameter_names tied_layers [''nn.LayerNorm''] = [''proj.weight'']"
    by (simp add: tied_layers_def isinstance_def qualify_def)
  have "\<not> sublist ''bias'' ''proj.weight''"
    by code_simp
  then show dp: "decay_parameters tied_layers = [''proj.weight'']"
    by (simp add: decay_parameters_def gpn)
  show "decay_group tied_layers = [Param 0]"
    by (simp add: decay_group_def np dp)
  show "no_decay_group tied_layers = []"
    by (simp add: no_decay_group_def np dp)
qed

lemma sample_untied: "untied sample_layers"
  by (simp add: untied_def sample_layers_def map_filter_def)

text \<open>
  The naming discipline is needed for the statement about layers under a forbidden
  layer: where two slots share a qualified name, the name-based test of the driver
  cannot tell them apart, and the parameter under the layer normalisation is decayed.
\<close>

lemma colliding_names:
  "\<not> well_named colliding_layers"
  "named_parameters colliding_layers = [(''a.b.weight'', Param 0), (''a.b.weight'', Param 1)]"
  "decay_parameters colliding_layers = [''a.b.weight'']"
  "decay_group colliding_layers = [Param 0, Param 1]"
proof -
  show "\<not> well_named colliding_layers"
    by (simp add: colliding_layers_def)
  show np: "named_parameters colliding_layers =
      [(''a.b.weight'', Param 0), (''a.b.weight'', Param 1)]"
    by (simp add: named_parameters_def colliding_layers_def join_prefix_def)
  have gpn: "get_parameter_names colliding_layers [''nn.LayerNorm''] = [''a.b.weight'']"
    by (simp add: colliding_layers_def isinstance_def qualify_def)
  have "\<not> sublist ''bias'' ''a.b.weight''"
    by code_simp
  then show dp: "decay_parameters colliding_layers = [''a.b.weight'']"
    by (simp add: decay_parameters_def gpn)
  show "decay_group colliding_layers = [Param 0, Param 1]"
    by (simp add: decay_group_def np dp)
qed

section \<open>Facts about runs\<close>

text \<open>
  A run performs an initial part of the planned events; a run that returns performs
  all of them, and no step of it was a \<open>Throw\<close>.
\<close>

lemma exec_trace:
  "exec raises done steps = (tr, r) \<Longrightarrow> \<exists>tr'. tr = done @ tr' \<and> prefix tr' (planned steps)"
proof (induction raises "done" steps rule: exec.induct)
  case (3 raises "done" ev rest)
  show ?case
  proof (cases "raises done ev")
    case True
    with "3.prems" show ?thesis by auto
  next
    case False
    with 3 obtain tr' where "tr = (done @ [ev]) @ tr'" "prefix tr' (planned rest)" by auto
    then show ?thesis by auto
  qed
qed auto

lemma exec_returns:
  "exec raises done steps = (tr, None) \<Longrightarrow> tr = done @ planned steps \<and> list_all is_Do steps"
  by (induction raises "done" steps rule: exec.induct) (auto split: if_splits)

lemma exec_quiet:
  "list_all is_Do steps \<Longrightarrow> \<forall>h e. \<not> raises h e \<Longrightarrow>
     exec raises done steps = (done @ planned steps, None)"
  by (induction raises "done" steps rule: exec.induct) auto

lemma planned_append:
  "planned (xs @ ys) = (if list_all is_Do xs then planned xs @ planned ys else planned xs)"
  by (induction xs rule: planned.induct) auto

lemma prefix_upto:
  assumes "prefix tr (xs @ y # zs)" "y \<in> set tr" "y \<notin> set xs"
  shows "\<exists>c. tr = xs @ y # c"
proof -
  from assms(1) consider "prefix tr xs" | us where "tr = xs @ us" "prefix us (y # zs)"
    by (auto simp: prefix_append)
  then show ?thesis
  proof cases
    case 1
    then have "set tr \<subseteq> set xs" by (auto simp: prefix_def)
    with assms(2,3) show ?thesis by auto
  next
    case 2
    with assms(2,3) have "us \<noteq> []" by auto
    with 2(2) obtain c where "us = y # c" by (cases us) auto
    with 2(1) show ?thesis by simp
  qed
qed

text \<open>The objects of \<^verbatim>\<open>train(cfg)\<close> that methods are called on differ from each other.\<close>

lemma solver_neq_rnc_solver [simp]: "solver env cfg \<noteq> rnc_solver env cfg"
  by (simp add: solver_def rnc_solver_def)

lemma solver_neq_Cosine [simp]: "solver env cfg \<noteq> Cosine env cfg"
  by (simp add: solver_def Cosine_def)

lemma rnc_solver_neq_Cosine [simp]: "rnc_solver env cfg \<noteq> Cosine env cfg"
  by (simp add: rnc_solver_def Cosine_def)

lemma is_Solver_solver [simp]: "is_Solver (solver env cfg)" "is_Solver (rnc_solver env cfg)"
  by (simp_all add: is_Solver_def solver_def rnc_solver_def)

text \<open>The shape of the planned events of \<^verbatim>\<open>train(cfg)\<close>, and where solvers occur in them.\<close>

lemma planned_setup:
  "planned (setup_steps env cfg) =
     (if list_all is_Do (setup_steps env cfg) then setup_events env cfg
      else if unpack_clash (MODEL_items (MODEL cfg)) (model_explicit env cfg)
      then take 5 (setup_events env cfg) else take 6 (setup_events env cfg))"
  by (simp add: setup_steps_def setup_events_def new_model_def new_Cosine_def
      construct_unpacked_def model_def Cosine_def)

lemma setup_no_solver: "ev \<in> set (setup_events env cfg) \<Longrightarrow> \<not> solver_event ev"
  by (auto simp: setup_events_def is_Solver_def FunctionalLoss_def FunctionalMetric_def
      sup_constraint_def sup_validator_def validator_object_def model_def Cosine_def optimizer_def)

lemma rnc_steps_Do: "list_all is_Do (rnc_steps env cfg)"
  by (simp add: rnc_steps_def rnc_pretrain_steps_def)

lemma main_steps_Do: "list_all is_Do (main_steps env cfg)"
  by (simp add: main_steps_def)

lemma planned_main:
  "planned (main_steps env cfg) =
     [SetAttr (model env cfg) ''rnc_pretrain_flag'' (PBool False),
      New (solver env cfg),
      Invoke (solver env cfg) ''train'',
      Invoke (solver env cfg) ''eval'']"
  by (simp add: main_steps_def)

lemma planned_train:
  "planned (train env cfg) =
     (if list_all is_Do (setup_steps env cfg) then train_events env cfg
      else planned (setup_steps env cfg))"
  by (simp add: train_def train_events_def planned_append rnc_steps_Do planned_setup)

lemma prefix_planned_train: "prefix (planned (train env cfg)) (train_events env cfg)"
proof -
  have "prefix (take n (setup_events env cfg)) (train_events env cfg)" for n
    unfolding train_events_def
    by (rule prefix_order.trans[OF take_is_prefix]) simp
  then show ?thesis
    by (simp add: planned_train planned_setup)
qed

lemma train_run_prefix:
  assumes "exec raises [] (train env cfg) = (tr, r)"
  shows "prefix tr (train_events env cfg)"
proof -
  from exec_trace[OF assms] have "prefix tr (planned (train env cfg))" by simp
  then show ?thesis
    using prefix_planned_train prefix_order.trans by blast
qed

lemma train_run_returns:
  assumes "exec raises [] (train env cfg) = (tr, None)"
  shows "tr = train_events env cfg"
proof -
  from exec_returns[OF assms] have tr: "tr = planned (train env cfg)"
    and "list_all is_Do (train env cfg)" by simp_all
  then have "list_all is_Do (setup_steps env cfg)" by (simp add: train_def)
  with tr show ?thesis by (simp add: planned_train)
qed

lemma rnc_solver_events:
  assumes "ev \<in> set (planned (rnc_steps env cfg))" "solver_event ev"
  shows "(use_rnc (RNC cfg) \<and> rnc_pretrain (RNC cfg) \<and> \<not> load_rnc_pretrain_params (RNC cfg))
         \<and> (ev = New (rnc_solver env cfg) \<or> ev = Invoke (rnc_solver env cfg) ''train''
            \<or> ev = Invoke (rnc_solver env cfg) ''eval'')"
  using assms
  by (auto simp: rnc_steps_def rnc_pretrain_steps_def is_Solver_def FunctionalLoss_def
      FunctionalMetric_def rnc_sup_constraint_def rnc_sup_validator_def split: if_splits)

lemma planned_rnc_pretrain:
  assumes "use_rnc (RNC cfg)" "rnc_pretrain (RNC cfg)" "\<not> load_rnc_pretrain_params (RNC cfg)"
  shows "planned (rnc_steps env cfg) =
     [LibCall ''print'' [PStr ''============= RNC PRETRAIN =============''],
      SetAttr (model env cfg) ''rnc_pretrain_flag'' (PBool True),
      New (FunctionalLoss ''enso_metric.rnc_pretrain_func''),
      New (rnc_sup_constraint cfg),
      New (FunctionalLoss ''enso_metric.rnc_pretrain_func''),
      New (FunctionalMetric ''enso_metric.eval_rnc_pretrain_func''),
      New (rnc_sup_validator cfg),
      New (rnc_solver env cfg)]
     @ [Invoke (rnc_solver env cfg) ''train'', Invoke (rnc_solver env cfg) ''eval'']
     @ [LibCall ''print'' [PStr ''============= RNC PRETRAIN END =============''],
        LibCall ''print'' [PStr ''============= LOAD RNC PRETRAIN PARAMs =============''],
        LibCall ''print'' [PStr ''===================================================='']]"
  using assms by (simp add: rnc_steps_def rnc_pretrain_steps_def)

lemma main_train_not_before:
  "Invoke (solver env cfg) m \<notin> set (setup_events env cfg @ planned (rnc_steps env cfg))"
proof
  assume a: "Invoke (solver env cfg) m \<in> set (setup_events env cfg @ planned (rnc_steps env cfg))"
  have se: "solver_event (Invoke (solver env cfg) m)" by simp
  from a consider "Invoke (solver env cfg) m \<in> set (setup_events env cfg)"
    | "Invoke (solver env cfg) m \<in> set (planned (rnc_steps env cfg))" by auto
  then show False
  proof cases
    case 1
    then show ?thesis using setup_no_solver se by blast
  next
    case 2
    from rnc_solver_events[OF 2 se] show ?thesis by simp
  qed
qed

text \<open>The sample configurations: their flags, and their runs when nothing raises.\<close>

lemma sample_flags [simp]:
  "use_rnc (RNC sample_cfg)" "rnc_pretrain (RNC sample_cfg)"
  "\<not> load_rnc_pretrain_params (RNC sample_cfg)"
  "\<not> use_rnc (RNC sample_cfg_no_rnc)"
  by (simp_all add: sample_cfg_def sample_cfg_no_rnc_def)

lemma no_clash_Do:
  assumes "\<not> unpack_clash (MODEL_items (MODEL cfg)) (model_explicit env cfg)"
    "\<not> unpack_clash (lr_scheduler_items (lr_scheduler (TRAIN cfg))) (lr_scheduler_explicit env cfg)"
  shows "list_all is_Do (train env cfg)"
  using assms
  by (simp add: train_def setup_steps_def new_model_def new_Cosine_def construct_unpacked_def
      rnc_steps_Do main_steps_Do)

lemma sample_no_clash:
  "\<not> unpack_clash (MODEL_items (MODEL sample_cfg)) (model_explicit env sample_cfg)"
  "\<not> unpack_clash (lr_scheduler_items (lr_scheduler (TRAIN sample_cfg)))
        (lr_scheduler_explicit env sample_cfg)"
  "\<not> unpack_clash (MODEL_items (MODEL sample_cfg_no_rnc)) (model_explicit env sample_cfg_no_rnc)"
  "\<not> unpack_clash (lr_scheduler_items (lr_scheduler (TRAIN sample_cfg_no_rnc)))
        (lr_scheduler_explicit env sample_cfg_no_rnc)"
  by (simp_all add: unpack_clash_def MODEL_items_def model_explicit_def lr_scheduler_items_def
      lr_scheduler_explicit_def sample_cfg_def sample_cfg_no_rnc_def)

lemma sample_run:
  "exec (\<lambda>h e. False) [] (train env sample_cfg) = (planned (train env sample_cfg), None)"
  "exec (\<lambda>h e. False) [] (train env sample_cfg_no_rnc) = (planned (train env sample_cfg_no_rnc), None)"
  using exec_quiet[OF no_clash_Do[OF sample_no_clash(1,2)], of "\<lambda>h e. False" "[]"]
    exec_quiet[OF no_clash_Do[OF sample_no_clash(3,4)], of "\<lambda>h e. False" "[]"]
  by simp_all

text \<open>Unless the RNC stage runs, the main solver is the only solver of a run.\<close>

lemma only_main_solver:
  assumes run: "exec raises [] (train env cfg) = (tr, r)"
    and off: "\<not> (use_rnc (RNC cfg) \<and> rnc_pretrain (RNC cfg) \<and> \<not> load_rnc_pretrain_params (RNC cfg))"
    and ev: "ev \<in> set tr" "solver_event ev"
  shows "ev = New (solver env cfg) \<or> ev = Invoke (solver env cfg) ''train''
               \<or> ev = Invoke (solver env cfg) ''eval''"
proof -
  from train_run_prefix[OF run] ev(1) have "ev \<in> set (train_events env cfg)"
    by (auto simp: prefix_def)
  then consider "ev \<in> set (setup_events env cfg)" | "ev \<in> set (planned (rnc_steps env cfg))"
    | "ev \<in> set (planned (main_steps env cfg))"
    by (auto simp: train_events_def)
  then show ?thesis
  proof cases
    case 1
    then show ?thesis using setup_no_solver ev(2) by blast
  next
    case 2
    from rnc_solver_events[OF 2 ev(2)] off show ?thesis by simp
  next
    case 3
    then show ?thesis using ev(2) by (auto simp: planned_main)
  qed
qed

lemma sample_load_run:
  "exec (\<lambda>h e. False) [] (train env sample_cfg_load) = (planned (train env sample_cfg_load), None)"
proof -
  have "list_all is_Do (train env sample_cfg_load)"
    by (rule no_clash_Do)
      (simp_all add: unpack_clash_def MODEL_items_def model_explicit_def lr_scheduler_items_def
        lr_scheduler_explicit_def sample_cfg_def sample_cfg_load_def)
  from exec_quiet[OF this, of "\<lambda>h e. False" "[]"] show ?thesis by simp
qed

text \<open>Lookups in the dataloader dictionaries.\<close>

lemma dataset_item_train:
  "dataset_item (train_dataloader_cfg cfg) k = map_of (dataset_entries cfg) k"
  by (simp add: dataset_item_def train_dataloader_cfg_def)

lemma dataset_item_eval:
  "dataset_item (eval_dataloader_cfg cfg) k =
     map_of (dataset_entries cfg @ [(''training'', PStr ''eval'')]) k"
  by (simp add: dataset_item_def eval_dataloader_cfg_def)

lemma dataset_entries_lookup:
  "map_of (dataset_entries cfg) ''data_dir'' = Some (FILE_PATH cfg)"
  "map_of (dataset_entries cfg) ''input_keys'' = Some (input_keys (MODEL cfg))"
  "map_of (dataset_entries cfg) ''label_keys'' = Some (label_keys (DATASET cfg))"
  "map_of (dataset_entries cfg) ''training'' = None"
  by (simp_all add: dataset_entries_def)

lemma batch_size_lookup:
  "item (train_dataloader_cfg cfg) ''batch_size'' = Some (TRAIN_batch_size (TRAIN cfg))"
  "item (eval_dataloader_cfg cfg) ''batch_size'' = Some (EVAL_batch_size (EVAL cfg))"
  by (simp_all add: train_dataloader_cfg_def eval_dataloader_cfg_def)

lemma dataloader_args:
  "args_of (sup_constraint cfg) = [train_dataloader_cfg cfg]"
  "args_of (sup_validator cfg) = [eval_dataloader_cfg cfg]"
  by (simp_all add: sup_constraint_def sup_validator_def validator_object_def)

text \<open>
  The dictionary of the RNC validator has the same dataset entries; its batch size is
  \<^verbatim>\<open>cfg.TRAIN.batch_size\<close>.
\<close>

lemma rnc_dataloader_cfg_fields:
  "dataset_item (rnc_eval_dataloader_cfg cfg) ''data_dir'' = Some (FILE_PATH cfg)"
  "dataset_item (rnc_eval_dataloader_cfg cfg) ''input_keys'' = Some (input_keys (MODEL cfg))"
  "dataset_item (rnc_eval_dataloader_cfg cfg) ''label_keys'' = Some (label_keys (DATASET cfg))"
  "item (rnc_eval_dataloader_cfg cfg) ''batch_size'' = Some (TRAIN_batch_size (TRAIN cfg))"
  "args_of (rnc_sup_constraint cfg) = [train_dataloader_cfg cfg]"
  "args_of (rnc_sup_validator cfg) = [rnc_eval_dataloader_cfg cfg]"
  by (simp_all add: dataset_item_def rnc_eval_dataloader_cfg_def map_add_def
      dataset_entries_lookup rnc_sup_constraint_def rnc_sup_validator_def)

text \<open>The events of \<^verbatim>\<open>evaluate(cfg)\<close>, alone and after \<^verbatim>\<open>main(cfg)\<close> has set the device.\<close>

lemma evaluate_event_cases:
  assumes "ev \<in> set (planned (evaluate env cfg))"
  shows "ev = New (FunctionalLoss ''enso_metric.train_extformer_moe_func'')
       \<or> ev = New (FunctionalMetric ''enso_metric.eval_rmse_func'')
       \<or> ev = New (validator_object (evaluate_dataloader_cfg cfg))
       \<or> ev = New (model env cfg)
       \<or> ev = New (evaluate_solver env cfg)
       \<or> ev = Invoke (evaluate_solver env cfg) ''eval''"
  using assms
  by (auto simp: evaluate_def new_model_def construct_unpacked_def model_def split: if_splits)

lemma evaluate_run_events:
  assumes "exec raises done (evaluate env cfg) = (tr, r)" "ev \<in> set tr"
  shows "ev \<in> set done \<or> ev \<in> set (planned (evaluate env cfg))"
proof -
  from exec_trace[OF assms(1)] obtain tr' where "tr = done @ tr'"
      "prefix tr' (planned (evaluate env cfg))" by blast
  with assms(2) show ?thesis by (auto simp: prefix_def)
qed

lemma evaluate_returns:
  assumes "exec raises done (evaluate env cfg) = (tr, None)"
  shows "Invoke (evaluate_solver env cfg) ''eval'' \<in> set tr"
proof -
  from exec_returns[OF assms] have tr: "tr = done @ planned (evaluate env cfg)"
    and "list_all is_Do (evaluate env cfg)" by simp_all
  then show ?thesis
    by (auto simp: evaluate_def new_model_def construct_unpacked_def split: if_splits)
qed

lemma planned_evaluate:
  "planned (evaluate env cfg) =
     (if list_all is_Do (evaluate env cfg) then evaluate_events env cfg
      else take 3 (evaluate_events env cfg))"
  by (simp add: evaluate_def evaluate_events_def new_model_def construct_unpacked_def model_def)

lemma evaluate_run_shape:
  assumes "exec raises done (evaluate env cfg) = (tr, r)"
  shows "\<exists>rest. done @ evaluate_events env cfg = tr @ rest \<and> (r = None \<longrightarrow> rest = [])"
proof -
  from exec_trace[OF assms] obtain tr' where tr': "tr = done @ tr'"
    and p: "prefix tr' (planned (evaluate env cfg))" by blast
  have "prefix (planned (evaluate env cfg)) (evaluate_events env cfg)"
    by (simp add: planned_evaluate take_is_prefix)
  with p have "prefix tr' (evaluate_events env cfg)"
    using prefix_order.trans by blast
  then obtain rest where rest: "evaluate_events env cfg = tr' @ rest"
    by (auto simp: prefix_def)
  have "rest = []" if "r = None"
  proof -
    from exec_returns[of raises "done" "evaluate env cfg" tr] assms that
    have "tr = done @ planned (evaluate env cfg)" "list_all is_Do (evaluate env cfg)"
      by simp_all
    then have "tr' = evaluate_events env cfg"
      using tr' by (simp add: planned_evaluate)
    with rest show ?thesis by simp
  qed
  with rest tr' show ?thesis by auto
qed

lemma main_eval_run:
  assumes "mode cfg = ''eval''" "exec raises [] (main env cfg) = (tr, r)"
  shows "tr = [set_device cfg] \<or> exec raises [set_device cfg] (evaluate env cfg) = (tr, r)"
  using assms by (auto simp: main_def split: if_splits)

lemma sample_eval_Do: "list_all is_Do (evaluate env sample_cfg_eval)"
  by (simp add: evaluate_def new_model_def construct_unpacked_def unpack_clash_def
      MODEL_items_def model_explicit_def sample_cfg_eval_def sample_cfg_def)

lemma str_nat_digit: "n < 10 \<Longrightarrow> str_nat n = [''0123456789'' ! n]"
  by (simp add: str_nat.simps)

text \<open>Every event of \<^verbatim>\<open>train(cfg)\<close> is of one of the delegated kinds.\<close>

lemma delegated_setup: "ev \<in> set (setup_events env cfg) \<Longrightarrow> delegated env cfg ev"
  by (auto simp: setup_events_def framework_classes_def FunctionalLoss_def FunctionalMetric_def
      sup_constraint_def sup_validator_def validator_object_def model_def Cosine_def optimizer_def)

lemma delegated_rnc: "ev \<in> set (planned (rnc_steps env cfg)) \<Longrightarrow> delegated env cfg ev"
  by (auto simp: rnc_steps_def rnc_pretrain_steps_def framework_classes_def FunctionalLoss_def
      FunctionalMetric_def rnc_sup_constraint_def rnc_sup_validator_def rnc_solver_def
      is_Solver_def split: if_splits)

lemma delegated_main: "ev \<in> set (planned (main_steps env cfg)) \<Longrightarrow> delegated env cfg ev"
  by (auto simp: planned_main framework_classes_def solver_def is_Solver_def)

lemma delegated_train:
  assumes "exec raises [] (train env cfg) = (tr, r)" "ev \<in> set tr"
  shows "delegated env cfg ev"
proof -
  from train_run_prefix[OF assms(1)] assms(2) have "ev \<in> set (train_events env cfg)"
    by (auto simp: prefix_def)
  then show ?thesis
    using delegated_setup delegated_rnc delegated_main by (auto simp: train_events_def)
qed

text \<open>
  The driver's own writes, and the parameter tensors along a run when the
  framework's constructors, the schedule call and \<^verbatim>\<open>print\<close> leave them alone.
\<close>

lemma own_write_frame:
  assumes "delegated env cfg ev" "own_write ev"
  shows "tensors (step_effect fw (model env cfg) ev s) = tensors s
     \<and> (\<forall>a. a \<noteq> ''rnc_pretrain_flag'' \<longrightarrow>
           attributes (step_effect fw (model env cfg) ev s) a = attributes s a)"
  using assms by (cases ev) auto

lemma step_frame:
  assumes quiet: "\<forall>ev s. delegated env cfg ev \<and> \<not> own_write ev \<and> \<not> training_call ev \<longrightarrow>
                    tensors (fw ev s) = tensors s"
    and ev: "delegated env cfg ev" "\<not> training_call ev"
  shows "tensors (step_effect fw (model env cfg) ev s) = tensors s"
proof (cases "own_write ev")
  case True
  with own_write_frame[OF ev(1)] show ?thesis by blast
next
  case False
  then have "step_effect fw (model env cfg) ev s = fw ev s"
    by (cases ev) simp_all
  with quiet ev False show ?thesis by simp
qed

lemma run_effect_snoc:
  "run_effect fw target (pre @ [ev]) s = step_effect fw target ev (run_effect fw target pre s)"
  by (simp add: run_effect_def)

lemma run_frame:
  assumes quiet: "\<forall>ev s. delegated env cfg ev \<and> \<not> own_write ev \<and> \<not> training_call ev \<longrightarrow>
                    tensors (fw ev s) = tensors s"
    and evs: "\<forall>ev \<in> set pre. delegated env cfg ev" "\<not> list_ex training_call pre"
  shows "tensors (run_effect fw (model env cfg) pre s) = tensors s"
  using evs
proof (induction pre rule: rev_induct)
  case Nil
  show ?case by (simp add: run_effect_def)
next
  case (snoc ev pre)
  from snoc.prems have pre: "\<forall>ev \<in> set pre. delegated env cfg ev" "\<not> list_ex training_call pre"
    and ev: "delegated env cfg ev" "\<not> training_call ev"
    by (simp_all add: list_ex_iff)
  have "tensors (run_effect fw (model env cfg) (pre @ [ev]) s) =
      tensors (run_effect fw (model env cfg) pre s)"
    unfolding run_effect_snoc by (rule step_frame[OF quiet ev])
  with snoc.IH[OF pre] show ?case by simp
qed

lemma training_call_solver: "training_call ev \<Longrightarrow> solver_event ev"
  by (cases ev) simp_all

lemma setup_no_training: "\<not> list_ex training_call (setup_events env cfg)"
  using setup_no_solver[of _ env cfg] training_call_solver by (auto simp: list_ex_iff)

lemma sample_train_events:
  "planned (train env sample_cfg) = train_events env sample_cfg"
proof -
  have "list_all is_Do (train env sample_cfg)"
    by (rule no_clash_Do[OF sample_no_clash(1,2)])
  then have "list_all is_Do (setup_steps env sample_cfg)"
    by (simp add: train_def)
  then show ?thesis
    by (simp add: planned_train)
qed

lemma training_effect_quiet:
  "\<not> training_call ev \<Longrightarrow> tensors (training_effect ev s) = tensors s"
  by (simp add: training_effect_def)

lemma sample_solver_path:
  "map_of (kwargs_of (solver sample_framework sample_cfg)) ''pretrained_model_path'' =
     Some (PStr ''./out/rnc_pretrain/checkpoints/best_model.pdparams'')"
  by (simp add: solver_def pretrained_model_path_def sample_cfg_def sample_framework_def
      posix_join2_def)

text \<open>The sample model, evaluated.\<close>

lemma sample_named_parameters:
  "named_parameters sample_layers =
     [(''pos_embed'', Param 4), (''norm.weight'', Param 0), (''norm.bias'', Param 1),
      (''proj.weight'', Param 2), (''proj.bias'', Param 3)]"
  by (simp add: named_parameters_def sample_layers_def join_prefix_def)

lemma sample_well_named: "well_named sample_layers"
  by (simp add: sample_layers_def)

lemma sample_norm_slot:
  "([(''norm'', Module [''nn.LayerNorm'', ''nn.Layer''] []
                     [(''weight'', Some (Param 0)), (''bias'', Some (Param 1))])],
     ''weight'', Some (Param 0)) \<in> set (slots sample_layers)"
  by (simp add: sample_layers_def)

section \<open>The claims\<close>

text \<open>
  C1. When RNC pretraining is enabled (\<^verbatim>\<open>use_rnc\<close> and \<^verbatim>\<open>rnc_pretrain\<close>) and
  \<^verbatim>\<open>load_rnc_pretrain_params\<close> is false, every run of \<^verbatim>\<open>train(cfg)\<close> that reaches
  \<^verbatim>\<open>solver.train()\<close> has performed \<^verbatim>\<open>rnc_solver.train()\<close> and then
  \<^verbatim>\<open>rnc_solver.eval()\<close> before it, and a run that returns does reach it. When one of
  the two flags is false, every solver event of a run concerns the main solver: no
  RNC solver is constructed or run.
\<close>

theorem rnc_pretrain_before_main_training:
  assumes run: "exec raises [] (train env cfg) = (tr, r)"
  shows "(use_rnc (RNC cfg) \<and> rnc_pretrain (RNC cfg) \<and> \<not> load_rnc_pretrain_params (RNC cfg) \<longrightarrow>
            (r = None \<longrightarrow> Invoke (solver env cfg) ''train'' \<in> set tr)
          \<and> (Invoke (solver env cfg) ''train'' \<in> set tr \<longrightarrow>
               (\<exists>a b c. tr = a @ [Invoke (rnc_solver env cfg) ''train'',
                                   Invoke (rnc_solver env cfg) ''eval'']
                              @ b @ Invoke (solver env cfg) ''train'' # c
                        \<and> Invoke (solver env cfg) ''train'' \<notin> set (a @ b))))
       \<and> (\<not> (use_rnc (RNC cfg) \<and> rnc_pretrain (RNC cfg)) \<longrightarrow>
            (\<forall>ev \<in> set tr. solver_event ev \<longrightarrow>
               ev = New (solver env cfg) \<or> ev = Invoke (solver env cfg) ''train''
               \<or> ev = Invoke (solver env cfg) ''eval''))"
proof (intro conjI impI)
  assume "r = None"
  with run have "tr = train_events env cfg" using train_run_returns by blast
  then show "Invoke (solver env cfg) ''train'' \<in> set tr"
    by (simp add: train_events_def planned_main)
next
  assume flags: "use_rnc (RNC cfg) \<and> rnc_pretrain (RNC cfg) \<and> \<not> load_rnc_pretrain_params (RNC cfg)"
    and started: "Invoke (solver env cfg) ''train'' \<in> set tr"
  let ?a = "setup_events env cfg @
     [LibCall ''print'' [PStr ''============= RNC PRETRAIN =============''],
      SetAttr (model env cfg) ''rnc_pretrain_flag'' (PBool True),
      New (FunctionalLoss ''enso_metric.rnc_pretrain_func''),
      New (rnc_sup_constraint cfg),
      New (FunctionalLoss ''enso_metric.rnc_pretrain_func''),
      New (FunctionalMetric ''enso_metric.eval_rnc_pretrain_func''),
      New (rnc_sup_validator cfg),
      New (rnc_solver env cfg)]"
  let ?b = "[LibCall ''print'' [PStr ''============= RNC PRETRAIN END =============''],
        LibCall ''print'' [PStr ''============= LOAD RNC PRETRAIN PARAMs =============''],
        LibCall ''print'' [PStr ''====================================================''],
        SetAttr (model env cfg) ''rnc_pretrain_flag'' (PBool False),
        New (solver env cfg)]"
  let ?rnc = "[Invoke (rnc_solver env cfg) ''train'', Invoke (rnc_solver env cfg) ''eval'']"
  have shape: "train_events env cfg =
      (?a @ ?rnc @ ?b) @ Invoke (solver env cfg) ''train'' # [Invoke (solver env cfg) ''eval'']"
    using flags by (simp add: train_events_def planned_rnc_pretrain planned_main)
  have fresh: "Invoke (solver env cfg) ''train'' \<notin> set (?a @ ?rnc @ ?b)"
    using main_train_not_before[of env cfg "''train''"] flags
    by (simp add: planned_rnc_pretrain)
  have "prefix tr ((?a @ ?rnc @ ?b) @ Invoke (solver env cfg) ''train''
          # [Invoke (solver env cfg) ''eval''])"
    using train_run_prefix[OF run] shape by simp
  from prefix_upto[OF this started fresh]
  obtain c where "tr = (?a @ ?rnc @ ?b) @ Invoke (solver env cfg) ''train'' # c" ..
  moreover have "Invoke (solver env cfg) ''train'' \<notin> set (?a @ ?b)"
    using fresh by simp
  ultimately show "\<exists>a b c. tr = a @ ?rnc @ b @ Invoke (solver env cfg) ''train'' # c
      \<and> Invoke (solver env cfg) ''train'' \<notin> set (a @ b)"
    by (intro exI[of _ ?a] exI[of _ ?b] exI[of _ c]) simp
next
  assume off: "\<not> (use_rnc (RNC cfg) \<and> rnc_pretrain (RNC cfg))"
  show "\<forall>ev \<in> set tr. solver_event ev \<longrightarrow>
               ev = New (solver env cfg) \<or> ev = Invoke (solver env cfg) ''train''
               \<or> ev = Invoke (solver env cfg) ''eval''"
  proof (intro ballI impI)
    fix ev assume ev: "ev \<in> set tr" "solver_event ev"
    from train_run_prefix[OF run] ev(1) have "ev \<in> set (train_events env cfg)"
      by (auto simp: prefix_def)
    then consider "ev \<in> set (setup_events env cfg)" | "ev \<in> set (planned (rnc_steps env cfg))"
      | "ev \<in> set (planned (main_steps env cfg))"
      by (auto simp: train_events_def)
    then show "ev = New (solver env cfg) \<or> ev = Invoke (solver env cfg) ''train''
               \<or> ev = Invoke (solver env cfg) ''eval''"
    proof cases
      case 1
      then show ?thesis using setup_no_solver ev(2) by blast
    next
      case 2
      from rnc_solver_events[OF 2 ev(2)] off show ?thesis by simp
    next
      case 3
      then show ?thesis using ev(2) by (auto simp: planned_main)
    qed
  qed
qed

theorem rnc_pretrain_before_main_training_witness:
  "(\<exists>a b c. fst (exec (\<lambda>h e. False) [] (train sample_framework sample_cfg)) =
        a @ [Invoke (rnc_solver sample_framework sample_cfg) ''train'',
             Invoke (rnc_solver sample_framework sample_cfg) ''eval'']
          @ b @ Invoke (solver sample_framework sample_cfg) ''train'' # c
      \<and> Invoke (solver sample_framework sample_cfg) ''train'' \<notin> set (a @ b))
   \<and> New (rnc_solver sample_framework sample_cfg_no_rnc)
       \<notin> set (fst (exec (\<lambda>h e. False) [] (train sample_framework sample_cfg_no_rnc)))"
proof
  let ?tr = "planned (train sample_framework sample_cfg)"
  from rnc_pretrain_before_main_training[OF sample_run(1), of sample_framework]
  have "Invoke (solver sample_framework sample_cfg) ''train'' \<in> set ?tr"
    and "Invoke (solver sample_framework sample_cfg) ''train'' \<in> set ?tr \<longrightarrow>
      (\<exists>a b c. ?tr = a @ [Invoke (rnc_solver sample_framework sample_cfg) ''train'',
             Invoke (rnc_solver sample_framework sample_cfg) ''eval'']
          @ b @ Invoke (solver sample_framework sample_cfg) ''train'' # c
      \<and> Invoke (solver sample_framework sample_cfg) ''train'' \<notin> set (a @ b))"
    by simp_all
  then show "\<exists>a b c. fst (exec (\<lambda>h e. False) [] (train sample_framework sample_cfg)) =
        a @ [Invoke (rnc_solver sample_framework sample_cfg) ''train'',
             Invoke (rnc_solver sample_framework sample_cfg) ''eval'']
          @ b @ Invoke (solver sample_framework sample_cfg) ''train'' # c
      \<and> Invoke (solver sample_framework sample_cfg) ''train'' \<notin> set (a @ b)"
    by (simp only: sample_run fst_conv)
next
  let ?tr = "planned (train sample_framework sample_cfg_no_rnc)"
  from rnc_pretrain_before_main_training[OF sample_run(2), of sample_framework]
  have "\<forall>ev \<in> set ?tr. solver_event ev \<longrightarrow>
               ev = New (solver sample_framework sample_cfg_no_rnc)
               \<or> ev = Invoke (solver sample_framework sample_cfg_no_rnc) ''train''
               \<or> ev = Invoke (solver sample_framework sample_cfg_no_rnc) ''eval''"
    by simp
  then have "New (rnc_solver sample_framework sample_cfg_no_rnc) \<notin> set ?tr"
    using solver_neq_rnc_solver[of sample_framework sample_cfg_no_rnc] by fastforce
  then show "New (rnc_solver sample_framework sample_cfg_no_rnc)
       \<notin> set (fst (exec (\<lambda>h e. False) [] (train sample_framework sample_cfg_no_rnc)))"
    by (simp add: sample_run)
qed

text \<open>
  C3. A run of \<^verbatim>\<open>train(cfg)\<close> that returns ends with the construction of the main
  solver, \<^verbatim>\<open>solver.train()\<close> and \<^verbatim>\<open>solver.eval()\<close>, in this order, and no
  method of the main solver is called earlier.
\<close>

theorem main_solver_train_then_eval:
  assumes "exec raises [] (train env cfg) = (tr, None)"
  shows "\<exists>before. tr = before @ [New (solver env cfg), Invoke (solver env cfg) ''train'',
                                  Invoke (solver env cfg) ''eval'']
           \<and> (\<forall>m. Invoke (solver env cfg) m \<notin> set before)"
proof -
  let ?before = "setup_events env cfg @ planned (rnc_steps env cfg)
      @ [SetAttr (model env cfg) ''rnc_pretrain_flag'' (PBool False)]"
  have "tr = ?before @ [New (solver env cfg), Invoke (solver env cfg) ''train'',
                                  Invoke (solver env cfg) ''eval'']"
    using train_run_returns[OF assms] by (simp add: train_events_def planned_main)
  moreover have "\<forall>m. Invoke (solver env cfg) m \<notin> set ?before"
    using main_train_not_before[of env cfg] by simp
  ultimately show ?thesis by blast
qed

theorem main_solver_train_then_eval_witness:
  "\<exists>before. planned (train sample_framework sample_cfg) =
      before @ [New (solver sample_framework sample_cfg),
                Invoke (solver sample_framework sample_cfg) ''train'',
                Invoke (solver sample_framework sample_cfg) ''eval'']"
  using main_solver_train_then_eval[OF sample_run(1), of sample_framework] by blast

text \<open>
  C4. For every layer tree and every list of forbidden types,
  \<^verbatim>\<open>get_parameter_names\<close> returns exactly the qualified names of the parameter
  slots that no forbidden layer lies above; a child contributes all of its names or
  none; and the result ends with the keys of the model's own \<^verbatim>\<open>_parameters\<close>,
  whatever the model's own classes are.
\<close>

theorem get_parameter_names_exact:
  "get_parameter_names m types = unforbidden_names m types
   \<and> get_parameter_names m types =
       concat (map (\<lambda>(name, child).
                 if isinstance child types then []
                 else map (qualify name) (get_parameter_names child types))
               (named_children m))
       @ map fst (parameters m)"
proof
  show "get_parameter_names m types = unforbidden_names m types"
    by (rule get_parameter_names_unforbidden)
next
  obtain cls children params where m: "m = Module cls children params"
    by (cases m)
  have "(\<lambda>(name, child). map (qualify name)
            (filter (\<lambda>n. \<not> isinstance child types) (get_parameter_names child types))) =
        (\<lambda>(name, child). if isinstance child types then []
            else map (qualify name) (get_parameter_names child types))"
    by (rule ext) (simp split: prod.splits)
  then show "get_parameter_names m types =
       concat (map (\<lambda>(name, child).
                 if isinstance child types then []
                 else map (qualify name) (get_parameter_names child types))
               (named_children m))
       @ map fst (parameters m)"
    by (simp add: m)
qed

theorem get_parameter_names_exact_witness:
  "get_parameter_names sample_layers [''nn.LayerNorm''] =
     [''proj.weight'', ''proj.bias'', ''pos_embed'']
   \<and> unforbidden_names sample_layers [''nn.LayerNorm''] =
     [''proj.weight'', ''proj.bias'', ''pos_embed'']"
proof -
  have "get_parameter_names sample_layers [''nn.LayerNorm''] =
     [''proj.weight'', ''proj.bias'', ''pos_embed'']"
    by (simp add: sample_layers_def isinstance_def qualify_def)
  with get_parameter_names_exact[of sample_layers "[''nn.LayerNorm'']"]
  show ?thesis by simp
qed

text \<open>
  C2. The main solver of \<^verbatim>\<open>train(cfg)\<close> is constructed with
  \<^verbatim>\<open>pretrained_model_path\<close> equal to
  \<^verbatim>\<open>os.path.join(cfg.output_dir, "rnc_pretrain", "checkpoints") + "/best_model.pdparams"\<close>
  when \<^verbatim>\<open>use_rnc\<close> and \<^verbatim>\<open>rnc_pretrain\<close> are both true, and \<^verbatim>\<open>None\<close> otherwise;
  it is the solver the last three steps construct, train and evaluate; and when
  \<^verbatim>\<open>load_rnc_pretrain_params\<close> is true no run constructs or runs another solver, so
  the path is passed although no pretraining ran.
\<close>

theorem main_solver_pretrained_model_path:
  "map_of (kwargs_of (solver env cfg)) ''pretrained_model_path'' =
     Some (if use_rnc (RNC cfg) \<and> rnc_pretrain (RNC cfg)
           then PStr (os_path_join env [output_dir cfg, ''rnc_pretrain'', ''checkpoints'']
                      @ ''/best_model.pdparams'')
           else PNone)
   \<and> (\<exists>before. train env cfg =
         before @ [Do (New (solver env cfg)), Do (Invoke (solver env cfg) ''train''),
                   Do (Invoke (solver env cfg) ''eval'')])
   \<and> (load_rnc_pretrain_params (RNC cfg) \<longrightarrow>
        (\<forall>raises tr r. exec raises [] (train env cfg) = (tr, r) \<longrightarrow>
           (\<forall>ev \<in> set tr. solver_event ev \<longrightarrow>
              ev = New (solver env cfg) \<or> ev = Invoke (solver env cfg) ''train''
              \<or> ev = Invoke (solver env cfg) ''eval'')))"
proof (intro conjI impI allI ballI)
  show "map_of (kwargs_of (solver env cfg)) ''pretrained_model_path'' =
     Some (if use_rnc (RNC cfg) \<and> rnc_pretrain (RNC cfg)
           then PStr (os_path_join env [output_dir cfg, ''rnc_pretrain'', ''checkpoints'']
                      @ ''/best_model.pdparams'')
           else PNone)"
    by (simp add: solver_def pretrained_model_path_def)
next
  have "train env cfg =
      (setup_steps env cfg @ rnc_steps env cfg
         @ [Do (SetAttr (model env cfg) ''rnc_pretrain_flag'' (PBool False))])
      @ [Do (New (solver env cfg)), Do (Invoke (solver env cfg) ''train''),
         Do (Invoke (solver env cfg) ''eval'')]"
    by (simp add: train_def main_steps_def)
  then show "\<exists>before. train env cfg =
         before @ [Do (New (solver env cfg)), Do (Invoke (solver env cfg) ''train''),
                   Do (Invoke (solver env cfg) ''eval'')]"
    by (rule exI[of _ "setup_steps env cfg @ rnc_steps env cfg
         @ [Do (SetAttr (model env cfg) ''rnc_pretrain_flag'' (PBool False))]"])
next
  fix raises tr r ev
  assume "load_rnc_pretrain_params (RNC cfg)" "exec raises [] (train env cfg) = (tr, r)"
    "ev \<in> set tr" "solver_event ev"
  then show "ev = New (solver env cfg) \<or> ev = Invoke (solver env cfg) ''train''
              \<or> ev = Invoke (solver env cfg) ''eval''"
    using only_main_solver[of raises env cfg tr r ev] by simp
qed

theorem main_solver_pretrained_model_path_witness:
  "map_of (kwargs_of (solver sample_framework sample_cfg_load)) ''pretrained_model_path'' =
     Some (PStr ''./out/rnc_pretrain/checkpoints/best_model.pdparams'')
   \<and> map_of (kwargs_of (solver sample_framework sample_cfg_no_rnc)) ''pretrained_model_path'' =
     Some PNone
   \<and> New (rnc_solver sample_framework sample_cfg_load)
       \<notin> set (fst (exec (\<lambda>h e. False) [] (train sample_framework sample_cfg_load)))"
proof (intro conjI)
  show "map_of (kwargs_of (solver sample_framework sample_cfg_load)) ''pretrained_model_path'' =
     Some (PStr ''./out/rnc_pretrain/checkpoints/best_model.pdparams'')"
    using main_solver_pretrained_model_path[of sample_framework sample_cfg_load]
    by (simp add: sample_cfg_load_def sample_cfg_def sample_framework_def posix_join2_def)
next
  show "map_of (kwargs_of (solver sample_framework sample_cfg_no_rnc)) ''pretrained_model_path'' =
     Some PNone"
    using main_solver_pretrained_model_path[of sample_framework sample_cfg_no_rnc] by simp
next
  have load: "load_rnc_pretrain_params (RNC sample_cfg_load)"
    by (simp add: sample_cfg_load_def)
  from main_solver_pretrained_model_path[of sample_framework sample_cfg_load] load sample_load_run[of sample_framework]
  have "\<forall>ev \<in> set (planned (train sample_framework sample_cfg_load)). solver_event ev \<longrightarrow>
      ev = New (solver sample_framework sample_cfg_load)
      \<or> ev = Invoke (solver sample_framework sample_cfg_load) ''train''
      \<or> ev = Invoke (solver sample_framework sample_cfg_load) ''eval''"
    by blast
  then have "New (rnc_solver sample_framework sample_cfg_load)
      \<notin> set (planned (train sample_framework sample_cfg_load))"
    using solver_neq_rnc_solver[of sample_framework sample_cfg_load] by fastforce
  then show "New (rnc_solver sample_framework sample_cfg_load)
       \<notin> set (fst (exec (\<lambda>h e. False) [] (train sample_framework sample_cfg_load)))"
    by (simp add: sample_load_run)
qed

text \<open>
  C7. The dataloader dictionaries of \<^verbatim>\<open>train(cfg)\<close> take the dataset path, the key
  lists and the batch sizes from the configuration: \<^verbatim>\<open>data_dir\<close> is
  \<^verbatim>\<open>cfg.FILE_PATH\<close>, \<^verbatim>\<open>input_keys\<close> is \<^verbatim>\<open>cfg.MODEL.input_keys\<close>, \<^verbatim>\<open>label_keys\<close>
  is \<^verbatim>\<open>cfg.DATASET.label_keys\<close>, the batch size of the training constraint is
  \<^verbatim>\<open>cfg.TRAIN.batch_size\<close> and that of the validator is \<^verbatim>\<open>cfg.EVAL.batch_size\<close>.
\<close>

theorem dataloader_cfg_from_configuration:
  "dataset_item (train_dataloader_cfg cfg) ''data_dir'' = Some (FILE_PATH cfg)
   \<and> dataset_item (train_dataloader_cfg cfg) ''input_keys'' = Some (input_keys (MODEL cfg))
   \<and> dataset_item (train_dataloader_cfg cfg) ''label_keys'' = Some (label_keys (DATASET cfg))
   \<and> item (train_dataloader_cfg cfg) ''batch_size'' = Some (TRAIN_batch_size (TRAIN cfg))
   \<and> dataset_item (eval_dataloader_cfg cfg) ''data_dir'' = Some (FILE_PATH cfg)
   \<and> dataset_item (eval_dataloader_cfg cfg) ''input_keys'' = Some (input_keys (MODEL cfg))
   \<and> dataset_item (eval_dataloader_cfg cfg) ''label_keys'' = Some (label_keys (DATASET cfg))
   \<and> item (eval_dataloader_cfg cfg) ''batch_size'' = Some (EVAL_batch_size (EVAL cfg))
   \<and> args_of (sup_constraint cfg) = [train_dataloader_cfg cfg]
   \<and> args_of (sup_validator cfg) = [eval_dataloader_cfg cfg]"
  by (simp only: dataset_item_train dataset_item_eval map_of_append map_add_Some_iff
      dataset_entries_lookup batch_size_lookup dataloader_args) simp

theorem dataloader_cfg_from_configuration_witness:
  "dataset_item (train_dataloader_cfg sample_cfg) ''data_dir'' = Some (PStr ''./data'')
   \<and> item (train_dataloader_cfg sample_cfg) ''batch_size'' = Some (PInt 16)
   \<and> item (eval_dataloader_cfg sample_cfg) ''batch_size'' = Some (PInt 1)"
  using dataloader_cfg_from_configuration[of sample_cfg] by (simp add: sample_cfg_def)

text \<open>
  C9. Every run of \<^verbatim>\<open>evaluate(cfg)\<close> is an initial part of the sequence: loss,
  metric, validator, model, solver, \<^verbatim>\<open>solver.eval()\<close>, and a run that returns is all
  of it; a run that calls \<^verbatim>\<open>solver.eval()\<close> has constructed the solver just before.
  \<^verbatim>\<open>solver.eval()\<close> is the only method call. The solver is constructed from the
  model alone, with no constraint and no optimizer among its arguments; its
  validator's dataset has \<^verbatim>\<open>"training": "test"\<close>, where the validator of
  \<^verbatim>\<open>train(cfg)\<close> has \<^verbatim>\<open>"training": "eval"\<close>. No run of \<^verbatim>\<open>main(cfg)\<close> in mode
  \<^verbatim>\<open>eval\<close> calls a \<^verbatim>\<open>train\<close> method.
\<close>

theorem evaluate_only_evaluates:
  assumes "exec raises [] (evaluate env cfg) = (tr, r)"
  shows "(\<exists>rest. [New (FunctionalLoss ''enso_metric.train_extformer_moe_func''),
                  New (FunctionalMetric ''enso_metric.eval_rmse_func''),
                  New (validator_object (evaluate_dataloader_cfg cfg)),
                  New (model env cfg),
                  New (evaluate_solver env cfg),
                  Invoke (evaluate_solver env cfg) ''eval''] = tr @ rest
             \<and> (r = None \<longrightarrow> rest = []))
     \<and> (Invoke (evaluate_solver env cfg) ''eval'' \<in> set tr \<longrightarrow>
           (\<exists>before. tr = before @ [New (evaluate_solver env cfg),
                                      Invoke (evaluate_solver env cfg) ''eval'']))
     \<and> (\<forall>obj m. Invoke obj m \<in> set tr \<longrightarrow> obj = evaluate_solver env cfg \<and> m = ''eval'')
     \<and> (r = None \<longrightarrow> Invoke (evaluate_solver env cfg) ''eval'' \<in> set tr)
     \<and> class_of (evaluate_solver env cfg) = ''ppsci.solver.Solver''
     \<and> args_of (evaluate_solver env cfg) = [model env cfg]
     \<and> map fst (kwargs_of (evaluate_solver env cfg)) =
          [''output_dir'', ''log_freq'', ''seed'', ''device'', ''validator'',
           ''pretrained_model_path'', ''compute_metric_by_batch'', ''eval_with_no_grad'']
     \<and> map_of (kwargs_of (evaluate_solver env cfg)) ''validator'' =
          Some (PDict [(attr_name env (validator_object (evaluate_dataloader_cfg cfg)),
                        validator_object (evaluate_dataloader_cfg cfg))])
     \<and> args_of (validator_object (evaluate_dataloader_cfg cfg)) = [evaluate_dataloader_cfg cfg]
     \<and> dataset_item (evaluate_dataloader_cfg cfg) ''training'' = Some (PStr ''test'')
     \<and> dataset_item (eval_dataloader_cfg cfg) ''training'' = Some (PStr ''eval'')
     \<and> (\<forall>tr' r'. mode cfg = ''eval'' \<and> exec raises [] (main env cfg) = (tr', r') \<longrightarrow>
           (\<forall>obj. Invoke obj ''train'' \<notin> set tr'))"
proof (intro conjI)
  from evaluate_run_shape[OF assms]
  show shape: "\<exists>rest. [New (FunctionalLoss ''enso_metric.train_extformer_moe_func''),
                  New (FunctionalMetric ''enso_metric.eval_rmse_func''),
                  New (validator_object (evaluate_dataloader_cfg cfg)),
                  New (model env cfg),
                  New (evaluate_solver env cfg),
                  Invoke (evaluate_solver env cfg) ''eval''] = tr @ rest
             \<and> (r = None \<longrightarrow> rest = [])"
    by (simp add: evaluate_events_def)
  show "Invoke (evaluate_solver env cfg) ''eval'' \<in> set tr \<longrightarrow>
           (\<exists>before. tr = before @ [New (evaluate_solver env cfg),
                                      Invoke (evaluate_solver env cfg) ''eval''])"
  proof
    assume called: "Invoke (evaluate_solver env cfg) ''eval'' \<in> set tr"
    let ?xs = "[New (FunctionalLoss ''enso_metric.train_extformer_moe_func''),
                  New (FunctionalMetric ''enso_metric.eval_rmse_func''),
                  New (validator_object (evaluate_dataloader_cfg cfg)),
                  New (model env cfg),
                  New (evaluate_solver env cfg)]"
    from shape have "prefix tr (?xs @ Invoke (evaluate_solver env cfg) ''eval'' # [])"
      by (auto simp: prefix_def)
    from prefix_upto[OF this called] obtain c
      where c: "tr = ?xs @ Invoke (evaluate_solver env cfg) ''eval'' # c" by auto
    with shape have "c = []" by auto
    with c have "tr = [New (FunctionalLoss ''enso_metric.train_extformer_moe_func''),
                  New (FunctionalMetric ''enso_metric.eval_rmse_func''),
                  New (validator_object (evaluate_dataloader_cfg cfg)),
                  New (model env cfg)]
          @ [New (evaluate_solver env cfg), Invoke (evaluate_solver env cfg) ''eval'']"
      by simp
    then show "\<exists>before. tr = before @ [New (evaluate_solver env cfg),
                                      Invoke (evaluate_solver env cfg) ''eval'']"
      by (rule exI[of _ "[New (FunctionalLoss ''enso_metric.train_extformer_moe_func''),
                  New (FunctionalMetric ''enso_metric.eval_rmse_func''),
                  New (validator_object (evaluate_dataloader_cfg cfg)),
                  New (model env cfg)]"])
  qed
  show "\<forall>obj m. Invoke obj m \<in> set tr \<longrightarrow> obj = evaluate_solver env cfg \<and> m = ''eval''"
  proof (intro allI impI)
    fix obj m assume "Invoke obj m \<in> set tr"
    with evaluate_run_events[OF assms] have "Invoke obj m \<in> set (planned (evaluate env cfg))"
      by auto
    from evaluate_event_cases[OF this]
    show "obj = evaluate_solver env cfg \<and> m = ''eval''" by simp
  qed
next
  show "r = None \<longrightarrow> Invoke (evaluate_solver env cfg) ''eval'' \<in> set tr"
    using assms evaluate_returns by blast
next
  show "class_of (evaluate_solver env cfg) = ''ppsci.solver.Solver''"
    by (simp add: evaluate_solver_def)
next
  show "args_of (evaluate_solver env cfg) = [model env cfg]"
    by (simp add: evaluate_solver_def)
next
  show "map fst (kwargs_of (evaluate_solver env cfg)) =
          [''output_dir'', ''log_freq'', ''seed'', ''device'', ''validator'',
           ''pretrained_model_path'', ''compute_metric_by_batch'', ''eval_with_no_grad'']"
    by (simp add: evaluate_solver_def)
next
  show "map_of (kwargs_of (evaluate_solver env cfg)) ''validator'' =
          Some (PDict [(attr_name env (validator_object (evaluate_dataloader_cfg cfg)),
                        validator_object (evaluate_dataloader_cfg cfg))])"
    by (simp add: evaluate_solver_def evaluate_validator_def)
next
  show "args_of (validator_object (evaluate_dataloader_cfg cfg)) = [evaluate_dataloader_cfg cfg]"
    by (simp add: validator_object_def)
next
  show "dataset_item (evaluate_dataloader_cfg cfg) ''training'' = Some (PStr ''test'')"
    by (simp add: dataset_item_def evaluate_dataloader_cfg_def map_add_def dataset_entries_lookup)
next
  show "dataset_item (eval_dataloader_cfg cfg) ''training'' = Some (PStr ''eval'')"
    by (simp add: dataset_item_eval map_add_def dataset_entries_lookup)
next
  show "\<forall>tr' r'. mode cfg = ''eval'' \<and> exec raises [] (main env cfg) = (tr', r') \<longrightarrow>
           (\<forall>obj. Invoke obj ''train'' \<notin> set tr')"
  proof (intro allI impI)
    fix tr' r' obj
    assume a: "mode cfg = ''eval'' \<and> exec raises [] (main env cfg) = (tr', r')"
    show "Invoke obj ''train'' \<notin> set tr'"
    proof
      assume in_tr: "Invoke obj ''train'' \<in> set tr'"
      from main_eval_run[of cfg raises env tr' r'] a
      consider "tr' = [set_device cfg]"
        | "exec raises [set_device cfg] (evaluate env cfg) = (tr', r')" by blast
      then show False
      proof cases
        case 1
        with in_tr show ?thesis by (simp add: set_device_def)
      next
        case 2
        from evaluate_run_events[OF 2 in_tr]
        have "Invoke obj ''train'' \<in> set (planned (evaluate env cfg))"
          by (simp add: set_device_def)
        from evaluate_event_cases[OF this] show ?thesis by simp
      qed
    qed
  qed
qed

theorem evaluate_only_evaluates_witness:
  "fst (exec (\<lambda>h e. False) [] (evaluate sample_framework sample_cfg_eval)) =
     [New (FunctionalLoss ''enso_metric.train_extformer_moe_func''),
      New (FunctionalMetric ''enso_metric.eval_rmse_func''),
      New (validator_object (evaluate_dataloader_cfg sample_cfg_eval)),
      New (model sample_framework sample_cfg_eval),
      New (evaluate_solver sample_framework sample_cfg_eval),
      Invoke (evaluate_solver sample_framework sample_cfg_eval) ''eval'']
   \<and> Invoke (evaluate_solver sample_framework sample_cfg_eval) ''eval''
     \<in> set (fst (exec (\<lambda>h e. False) [] (evaluate sample_framework sample_cfg_eval)))
   \<and> Invoke (solver sample_framework sample_cfg_eval) ''train''
     \<notin> set (fst (exec (\<lambda>h e. False) [] (main sample_framework sample_cfg_eval)))"
proof -
  have run: "exec (\<lambda>h e. False) [] (evaluate sample_framework sample_cfg_eval) =
      (planned (evaluate sample_framework sample_cfg_eval), None)"
    using exec_quiet[OF sample_eval_Do, of "\<lambda>h e. False" "[]"] by simp
  have mode: "mode sample_cfg_eval = ''eval''"
    by (simp add: sample_cfg_eval_def)
  note c9 = evaluate_only_evaluates[OF run]
  have a: "Invoke (evaluate_solver sample_framework sample_cfg_eval) ''eval''
     \<in> set (planned (evaluate sample_framework sample_cfg_eval))"
    using c9 by blast
  have "\<forall>tr' r'. mode sample_cfg_eval = ''eval''
        \<and> exec (\<lambda>h e. False) [] (main sample_framework sample_cfg_eval) = (tr', r') \<longrightarrow>
           (\<forall>obj. Invoke obj ''train'' \<notin> set tr')"
    using c9 by blast
  then have b: "Invoke (solver sample_framework sample_cfg_eval) ''train''
     \<notin> set (fst (exec (\<lambda>h e. False) [] (main sample_framework sample_cfg_eval)))"
    using mode by (metis prod.collapse)
  have "\<exists>rest. [New (FunctionalLoss ''enso_metric.train_extformer_moe_func''),
      New (FunctionalMetric ''enso_metric.eval_rmse_func''),
      New (validator_object (evaluate_dataloader_cfg sample_cfg_eval)),
      New (model sample_framework sample_cfg_eval),
      New (evaluate_solver sample_framework sample_cfg_eval),
      Invoke (evaluate_solver sample_framework sample_cfg_eval) ''eval'']
     = planned (evaluate sample_framework sample_cfg_eval) @ rest \<and> rest = []"
    using conjunct1[OF c9] by simp
  then have c: "planned (evaluate sample_framework sample_cfg_eval) =
     [New (FunctionalLoss ''enso_metric.train_extformer_moe_func''),
      New (FunctionalMetric ''enso_metric.eval_rmse_func''),
      New (validator_object (evaluate_dataloader_cfg sample_cfg_eval)),
      New (model sample_framework sample_cfg_eval),
      New (evaluate_solver sample_framework sample_cfg_eval),
      Invoke (evaluate_solver sample_framework sample_cfg_eval) ''eval'']"
    by auto
  from a b c show ?thesis by (simp only: run fst_conv) simp
qed

text \<open>
  C5 (amended). The two parameter groups handed to the optimizer partition
  \<^verbatim>\<open>model.named_parameters()\<close>: together they hold every yielded parameter, each
  exactly once. A parameter whose name is in \<^verbatim>\<open>decay_parameters\<close> is in the group with
  weight decay \<^verbatim>\<open>cfg.TRAIN.wd\<close>; a parameter whose name contains \<^verbatim>\<open>bias\<close> is in the
  group with weight decay \<^verbatim>\<open>0.0\<close>. In a layer tree that follows the framework's
  naming discipline, every yielded parameter sits at a slot of that name, and one
  yielded under the name of a slot under an \<^verbatim>\<open>nn.LayerNorm\<close> layer is in the group
  with weight decay \<^verbatim>\<open>0.0\<close>; if moreover no parameter object is registered twice,
  every parameter that lies under an \<^verbatim>\<open>nn.LayerNorm\<close> layer is yielded and is in the
  group with weight decay \<^verbatim>\<open>0.0\<close> only.
\<close>

theorem optimizer_groups_partition:
  "optimizer_grouped_parameters env cfg =
     [PDict [(''params'', PList (map PParam (decay_group (layers env (model env cfg))))),
             (''weight_decay'', wd (TRAIN cfg))],
      PDict [(''params'', PList (map PParam (no_decay_group (layers env (model env cfg))))),
             (''weight_decay'', PFloat (float_literal env ''0.0''))]]
   \<and> distinct (decay_group m @ no_decay_group m)
   \<and> set (decay_group m) \<union> set (no_decay_group m) = snd ` set (named_parameters m)
   \<and> (\<forall>(n, p) \<in> set (named_parameters m).
         (n \<in> set (decay_parameters m) \<longrightarrow> p \<in> set (decay_group m))
         \<and> (sublist ''bias'' n \<longrightarrow> p \<in> set (no_decay_group m)))
   \<and> (well_named m \<longrightarrow>
         (\<forall>(n, p) \<in> set (named_parameters m).
            (\<exists>s \<in> set (slots m). qualified_name s = n \<and> snd (snd s) = Some p)
            \<and> (\<forall>s \<in> set (slots m).
                  qualified_name s = n \<and> under_forbidden [''nn.LayerNorm''] s \<longrightarrow>
                  p \<in> set (no_decay_group m))))
   \<and> (well_named m \<and> untied m \<longrightarrow>
         (\<forall>s \<in> set (slots m). \<forall>p.
            snd (snd s) = Some p \<and> under_forbidden [''nn.LayerNorm''] s \<longrightarrow>
            (qualified_name s, p) \<in> set (named_parameters m)
            \<and> p \<in> set (no_decay_group m) \<and> p \<notin> set (decay_group m)))"
proof (intro conjI)
  show "optimizer_grouped_parameters env cfg =
     [PDict [(''params'', PList (map PParam (decay_group (layers env (model env cfg))))),
             (''weight_decay'', wd (TRAIN cfg))],
      PDict [(''params'', PList (map PParam (no_decay_group (layers env (model env cfg))))),
             (''weight_decay'', PFloat (float_literal env ''0.0''))]]"
    by (simp add: optimizer_grouped_parameters_def)
next
  show "distinct (decay_group m @ no_decay_group m)"
    by (rule groups_distinct)
next
  show "set (decay_group m) \<union> set (no_decay_group m) = snd ` set (named_parameters m)"
    by (rule groups_cover)
next
  show "\<forall>(n, p) \<in> set (named_parameters m).
         (n \<in> set (decay_parameters m) \<longrightarrow> p \<in> set (decay_group m))
         \<and> (sublist ''bias'' n \<longrightarrow> p \<in> set (no_decay_group m))"
    using in_decay_group in_no_decay_group bias_not_decayed by fast
next
  show "well_named m \<longrightarrow>
         (\<forall>(n, p) \<in> set (named_parameters m).
            (\<exists>s \<in> set (slots m). qualified_name s = n \<and> snd (snd s) = Some p)
            \<and> (\<forall>s \<in> set (slots m).
                  qualified_name s = n \<and> under_forbidden [''nn.LayerNorm''] s \<longrightarrow>
                  p \<in> set (no_decay_group m)))"
  proof (intro impI ballI)
    fix x assume wn: "well_named m" and x: "x \<in> set (named_parameters m)"
    obtain n p where np: "x = (n, p)" by (cases x)
    have a: "\<exists>s \<in> set (slots m). qualified_name s = n \<and> snd (snd s) = Some p"
      using named_parameters_slot[OF wn] x np by blast
    have b: "p \<in> set (no_decay_group m)"
      if "s \<in> set (slots m)" "qualified_name s = n \<and> under_forbidden [''nn.LayerNorm''] s" for s
      using layer_norm_not_decayed[OF wn that(1)] that(2) in_no_decay_group[of n p m] x np
      by blast
    from a b show "case x of (n, p) \<Rightarrow>
            (\<exists>s \<in> set (slots m). qualified_name s = n \<and> snd (snd s) = Some p)
            \<and> (\<forall>s \<in> set (slots m).
                  qualified_name s = n \<and> under_forbidden [''nn.LayerNorm''] s \<longrightarrow>
                  p \<in> set (no_decay_group m))"
      unfolding np by (simp only: prod.case) blast
  qed
next
  show "well_named m \<and> untied m \<longrightarrow>
         (\<forall>s \<in> set (slots m). \<forall>p.
            snd (snd s) = Some p \<and> under_forbidden [''nn.LayerNorm''] s \<longrightarrow>
            (qualified_name s, p) \<in> set (named_parameters m)
            \<and> p \<in> set (no_decay_group m) \<and> p \<notin> set (decay_group m))"
    using untied_layer_norm by blast
qed

theorem optimizer_groups_partition_witness:
  "Param 0 \<in> set (no_decay_group sample_layers)
   \<and> Param 1 \<in> set (no_decay_group sample_layers)
   \<and> Param 1 \<notin> set (decay_group sample_layers)
   \<and> Param 3 \<in> set (no_decay_group sample_layers)
   \<and> Param 2 \<in> set (decay_group sample_layers)
   \<and> distinct (decay_group sample_layers @ no_decay_group sample_layers)"
proof -
  let ?w = "([(''norm'', Module [''nn.LayerNorm'', ''nn.Layer''] []
                     [(''weight'', Some (Param 0)), (''bias'', Some (Param 1))])],
     ''weight'', Some (Param 0))"
  let ?b = "([(''norm'', Module [''nn.LayerNorm'', ''nn.Layer''] []
                     [(''weight'', Some (Param 0)), (''bias'', Some (Param 1))])],
     ''bias'', Some (Param 1))"
  note c5 = optimizer_groups_partition[of sample_framework sample_cfg sample_layers]
  have bias: "sublist ''bias'' ''proj.bias''"
    by code_simp
  have decayed: "''proj.weight'' \<in> set (decay_parameters sample_layers)"
  proof -
    have "\<not> sublist ''bias'' ''proj.weight''" by code_simp
    then show ?thesis
      by (simp add: decay_parameters_def sample_layers_def isinstance_def qualify_def)
  qed
  have by_name: "\<forall>(n, p) \<in> set (named_parameters sample_layers).
         (n \<in> set (decay_parameters sample_layers) \<longrightarrow> p \<in> set (decay_group sample_layers))
         \<and> (sublist ''bias'' n \<longrightarrow> p \<in> set (no_decay_group sample_layers))"
    by (rule c5[THEN conjunct2, THEN conjunct2, THEN conjunct2, THEN conjunct1])
  have p3: "Param 3 \<in> set (no_decay_group sample_layers)"
    using by_name bias by (simp add: sample_named_parameters)
  have p2: "Param 2 \<in> set (decay_group sample_layers)"
    using by_name decayed by (simp add: sample_named_parameters)
  have "\<forall>(n, p) \<in> set (named_parameters sample_layers).
            (\<exists>s \<in> set (slots sample_layers). qualified_name s = n \<and> snd (snd s) = Some p)
            \<and> (\<forall>s \<in> set (slots sample_layers).
                  qualified_name s = n \<and> under_forbidden [''nn.LayerNorm''] s \<longrightarrow>
                  p \<in> set (no_decay_group sample_layers))"
    by (rule mp[OF c5[THEN conjunct2, THEN conjunct2, THEN conjunct2, THEN conjunct2,
                      THEN conjunct1] sample_well_named])
  then have "\<forall>s \<in> set (slots sample_layers).
                  qualified_name s = ''norm.weight'' \<and> under_forbidden [''nn.LayerNorm''] s \<longrightarrow>
                  Param 0 \<in> set (no_decay_group sample_layers)"
    by (simp add: sample_named_parameters)
  moreover have "qualified_name ?w = ''norm.weight'' \<and> under_forbidden [''nn.LayerNorm''] ?w"
    by (simp add: qualify_def isinstance_def)
  ultimately have p0: "Param 0 \<in> set (no_decay_group sample_layers)"
    using sample_norm_slot by blast
  have "\<forall>s \<in> set (slots sample_layers). \<forall>p.
            snd (snd s) = Some p \<and> under_forbidden [''nn.LayerNorm''] s \<longrightarrow>
            (qualified_name s, p) \<in> set (named_parameters sample_layers)
            \<and> p \<in> set (no_decay_group sample_layers) \<and> p \<notin> set (decay_group sample_layers)"
    by (rule mp[OF c5[THEN conjunct2, THEN conjunct2, THEN conjunct2, THEN conjunct2,
                      THEN conjunct2] conjI[OF sample_well_named sample_untied]])
  moreover have "?b \<in> set (slots sample_layers)"
    by (simp add: sample_layers_def)
  moreover have "snd (snd ?b) = Some (Param 1) \<and> under_forbidden [''nn.LayerNorm''] ?b"
    by (simp add: isinstance_def)
  ultimately have p1: "Param 1 \<in> set (no_decay_group sample_layers)
      \<and> Param 1 \<notin> set (decay_group sample_layers)"
    by blast
  have "distinct (decay_group sample_layers @ no_decay_group sample_layers)"
    by (rule c5[THEN conjunct2, THEN conjunct1])
  with p0 p1 p2 p3 show ?thesis by simp
qed

text \<open>
  The claim as worded fails where a parameter object is tied: here the weight of the
  layer normalisation is also the weight of the linear layer, is yielded once under
  the linear layer's name, and lands in the group with weight decay.
\<close>

theorem tied_layer_norm_parameter_decayed:
  "well_named tied_layers
   \<and> ([(''norm'', Module [''nn.LayerNorm'', ''nn.Layer''] [] [(''weight'', Some (Param 0))])],
        ''weight'', Some (Param 0)) \<in> set (slots tied_layers)
   \<and> under_forbidden [''nn.LayerNorm'']
        ([(''norm'', Module [''nn.LayerNorm'', ''nn.Layer''] [] [(''weight'', Some (Param 0))])],
         ''weight'', Some (Param 0))
   \<and> named_parameters tied_layers = [(''proj.weight'', Param 0)]
   \<and> decay_group tied_layers = [Param 0]
   \<and> no_decay_group tied_layers = []"
proof (intro conjI)
  show "([(''norm'', Module [''nn.LayerNorm'', ''nn.Layer''] [] [(''weight'', Some (Param 0))])],
        ''weight'', Some (Param 0)) \<in> set (slots tied_layers)"
    by (simp add: tied_layers_def)
  show "under_forbidden [''nn.LayerNorm'']
        ([(''norm'', Module [''nn.LayerNorm'', ''nn.Layer''] [] [(''weight'', Some (Param 0))])],
         ''weight'', Some (Param 0))"
    by (simp add: isinstance_def)
next
  show "well_named tied_layers" by (rule tied_facts)
next
  show "named_parameters tied_layers = [(''proj.weight'', Param 0)]" by (rule tied_facts)
next
  show "decay_group tied_layers = [Param 0]" by (rule tied_facts)
next
  show "no_decay_group tied_layers = []" by (rule tied_facts)
qed

text \<open>
  C6. Every run of \<^verbatim>\<open>train(cfg)\<close> is an initial part of one fixed sequence, and a
  run that returns is all of it: the constraint on the training dataloader
  dictionary and the validator on the evaluation one, then the model, then the
  Cosine schedule and the AdamW optimizer, then the optional RNC stage, and last the
  main solver with its \<^verbatim>\<open>train()\<close> and \<^verbatim>\<open>eval()\<close>. No solver is constructed or
  called before the optimizer exists. The model is built from \<^verbatim>\<open>cfg.MODEL\<close> and the
  converted MOE and RNC configurations; the schedule gets \<^verbatim>\<open>iters_per_epoch\<close> from
  the length of the training data loader and \<^verbatim>\<open>warmup_epoch\<close> \<^verbatim>\<open>int(0.2 * cfg.TRAIN.epochs)\<close>;
  the optimizer is AdamW on the schedule.
\<close>

theorem train_step_order:
  assumes "exec raises [] (train env cfg) = (tr, r)"
  shows "(\<exists>rest. ([New (FunctionalLoss ''enso_metric.train_extformer_moe_func''),
             New (sup_constraint cfg),
             New (FunctionalLoss ''enso_metric.train_extformer_moe_func''),
             New (FunctionalMetric ''enso_metric.eval_rmse_func''),
             New (sup_validator cfg),
             New (model env cfg),
             New (Cosine env cfg),
             Invoke (Cosine env cfg) ''__call__'',
             New (optimizer env cfg)]
            @ planned (rnc_steps env cfg)
            @ [SetAttr (model env cfg) ''rnc_pretrain_flag'' (PBool False),
               New (solver env cfg),
               Invoke (solver env cfg) ''train'',
               Invoke (solver env cfg) ''eval'']) = tr @ rest
             \<and> (r = None \<longrightarrow> rest = []))
     \<and> \<not> list_ex solver_event
           [New (FunctionalLoss ''enso_metric.train_extformer_moe_func''),
            New (sup_constraint cfg),
            New (FunctionalLoss ''enso_metric.train_extformer_moe_func''),
            New (FunctionalMetric ''enso_metric.eval_rmse_func''),
            New (sup_validator cfg),
            New (model env cfg),
            New (Cosine env cfg),
            Invoke (Cosine env cfg) ''__call__'',
            New (optimizer env cfg)]
     \<and> args_of (sup_constraint cfg) = [train_dataloader_cfg cfg]
     \<and> args_of (sup_validator cfg) = [eval_dataloader_cfg cfg]
     \<and> model env cfg =
         PObj ''ppsci.arch.ExtFormerMoECuboid'' []
           (MODEL_items (MODEL cfg)
            @ [(''moe_config'', to_object env (MOE cfg)),
               (''rnc_config'', to_object env (PDict (RNC_items (RNC cfg))))])
     \<and> Cosine env cfg =
         PObj ''ppsci.optimizer.lr_scheduler.Cosine'' []
           (lr_scheduler_items (lr_scheduler (TRAIN cfg))
            @ [(''iters_per_epoch'', PInt (int (data_loader_len env (sup_constraint cfg)))),
               (''eta_min'',
                  PFloat (float_mul env (min_lr_ratio (TRAIN cfg))
                            (learning_rate (lr_scheduler (TRAIN cfg))))),
               (''warmup_epoch'',
                  PInt (int_of_float env
                          (float_mul env (float_literal env ''0.2'')
                             (float_of_int env (epochs (TRAIN cfg))))))])
     \<and> optimizer env cfg =
         PObj ''paddle.optimizer.AdamW'' [PRet (Cosine env cfg)]
           [(''parameters'', PList (optimizer_grouped_parameters env cfg))]
     \<and> take 5 (args_of (solver env cfg)) =
         [model env cfg, constraint env cfg, PStr (output_dir cfg), optimizer env cfg,
          PRet (Cosine env cfg)]"
proof (intro conjI)
  from train_run_prefix[OF assms] obtain rest where rest: "train_events env cfg = tr @ rest"
    by (auto simp: prefix_def)
  have "r = None \<longrightarrow> rest = []"
    using train_run_returns[of raises env cfg tr] assms rest by auto
  with rest show "\<exists>rest. ([New (FunctionalLoss ''enso_metric.train_extformer_moe_func''),
             New (sup_constraint cfg),
             New (FunctionalLoss ''enso_metric.train_extformer_moe_func''),
             New (FunctionalMetric ''enso_metric.eval_rmse_func''),
             New (sup_validator cfg),
             New (model env cfg),
             New (Cosine env cfg),
             Invoke (Cosine env cfg) ''__call__'',
             New (optimizer env cfg)]
            @ planned (rnc_steps env cfg)
            @ [SetAttr (model env cfg) ''rnc_pretrain_flag'' (PBool False),
               New (solver env cfg),
               Invoke (solver env cfg) ''train'',
               Invoke (solver env cfg) ''eval'']) = tr @ rest
             \<and> (r = None \<longrightarrow> rest = [])"
    by (simp add: train_events_def setup_events_def planned_main)
next
  have "\<not> list_ex solver_event (setup_events env cfg)"
    using setup_no_solver[of _ env cfg] by (auto simp: list_ex_iff)
  from this[unfolded setup_events_def] show "\<not> list_ex solver_event
           [New (FunctionalLoss ''enso_metric.train_extformer_moe_func''),
            New (sup_constraint cfg),
            New (FunctionalLoss ''enso_metric.train_extformer_moe_func''),
            New (FunctionalMetric ''enso_metric.eval_rmse_func''),
            New (sup_validator cfg),
            New (model env cfg),
            New (Cosine env cfg),
            Invoke (Cosine env cfg) ''__call__'',
            New (optimizer env cfg)]" .
next
  show "args_of (sup_constraint cfg) = [train_dataloader_cfg cfg]"
    by (rule dataloader_args)
next
  show "args_of (sup_validator cfg) = [eval_dataloader_cfg cfg]"
    by (rule dataloader_args)
next
  show "model env cfg =
         PObj ''ppsci.arch.ExtFormerMoECuboid'' []
           (MODEL_items (MODEL cfg)
            @ [(''moe_config'', to_object env (MOE cfg)),
               (''rnc_config'', to_object env (PDict (RNC_items (RNC cfg))))])"
    by (simp add: model_def model_explicit_def moe_config_def rnc_config_def)
next
  show "Cosine env cfg =
         PObj ''ppsci.optimizer.lr_scheduler.Cosine'' []
           (lr_scheduler_items (lr_scheduler (TRAIN cfg))
            @ [(''iters_per_epoch'', PInt (int (data_loader_len env (sup_constraint cfg)))),
               (''eta_min'',
                  PFloat (float_mul env (min_lr_ratio (TRAIN cfg))
                            (learning_rate (lr_scheduler (TRAIN cfg))))),
               (''warmup_epoch'',
                  PInt (int_of_float env
                          (float_mul env (float_literal env ''0.2'')
                             (float_of_int env (epochs (TRAIN cfg))))))])"
    by (simp add: Cosine_def lr_scheduler_explicit_def ITERS_PER_EPOCH_def)
next
  show "optimizer env cfg =
         PObj ''paddle.optimizer.AdamW'' [PRet (Cosine env cfg)]
           [(''parameters'', PList (optimizer_grouped_parameters env cfg))]"
    by (simp add: optimizer_def lr_scheduler_object_def)
next
  show "take 5 (args_of (solver env cfg)) =
         [model env cfg, constraint env cfg, PStr (output_dir cfg), optimizer env cfg,
          PRet (Cosine env cfg)]"
    by (simp add: solver_def lr_scheduler_object_def)
qed

theorem train_step_order_witness:
  "length (fst (exec (\<lambda>h e. False) [] (train sample_framework sample_cfg))) = 26
   \<and> map_of (kwargs_of (Cosine sample_framework sample_cfg)) ''iters_per_epoch'' = Some (PInt 100)
   \<and> map_of (kwargs_of (Cosine sample_framework sample_cfg)) ''warmup_epoch'' = Some (PInt 2)"
proof (intro conjI)
  note c6 = train_step_order[OF sample_run(1), of sample_framework]
  from conjunct1[OF c6] obtain rest where
    full: "[New (FunctionalLoss ''enso_metric.train_extformer_moe_func''),
             New (sup_constraint sample_cfg),
             New (FunctionalLoss ''enso_metric.train_extformer_moe_func''),
             New (FunctionalMetric ''enso_metric.eval_rmse_func''),
             New (sup_validator sample_cfg),
             New (model sample_framework sample_cfg),
             New (Cosine sample_framework sample_cfg),
             Invoke (Cosine sample_framework sample_cfg) ''__call__'',
             New (optimizer sample_framework sample_cfg)]
            @ planned (rnc_steps sample_framework sample_cfg)
            @ [SetAttr (model sample_framework sample_cfg) ''rnc_pretrain_flag'' (PBool False),
               New (solver sample_framework sample_cfg),
               Invoke (solver sample_framework sample_cfg) ''train'',
               Invoke (solver sample_framework sample_cfg) ''eval'']
           = planned (train sample_framework sample_cfg) @ rest"
    and none_left: "rest = []"
    by blast
  have "length (planned (train sample_framework sample_cfg)) =
      13 + length (planned (rnc_steps sample_framework sample_cfg))"
    using arg_cong[OF full, of length] none_left by simp
  then show "length (fst (exec (\<lambda>h e. False) [] (train sample_framework sample_cfg))) = 26"
    by (simp add: sample_run rnc_steps_def rnc_pretrain_steps_def)
  have cos: "Cosine sample_framework sample_cfg =
         PObj ''ppsci.optimizer.lr_scheduler.Cosine'' []
           (lr_scheduler_items (lr_scheduler (TRAIN sample_cfg))
            @ [(''iters_per_epoch'',
                  PInt (int (data_loader_len sample_framework (sup_constraint sample_cfg)))),
               (''eta_min'',
                  PFloat (float_mul sample_framework (min_lr_ratio (TRAIN sample_cfg))
                            (learning_rate (lr_scheduler (TRAIN sample_cfg))))),
               (''warmup_epoch'',
                  PInt (int_of_float sample_framework
                          (float_mul sample_framework (float_literal sample_framework ''0.2'')
                             (float_of_int sample_framework (epochs (TRAIN sample_cfg))))))])"
    using c6 by blast
  show "map_of (kwargs_of (Cosine sample_framework sample_cfg)) ''iters_per_epoch'' = Some (PInt 100)"
    unfolding cos by (simp add: lr_scheduler_items_def sample_cfg_def sample_framework_def)
  show "map_of (kwargs_of (Cosine sample_framework sample_cfg)) ''warmup_epoch'' = Some (PInt 2)"
    unfolding cos by (simp add: lr_scheduler_items_def sample_cfg_def sample_framework_def)
qed

text \<open>
  C8 (amended). Every event of a run of \<^verbatim>\<open>train(cfg)\<close> is a constructor call of a
  framework class, \<^verbatim>\<open>train()\<close> or \<^verbatim>\<open>eval()\<close> of a solver, the call of the schedule
  object, a \<^verbatim>\<open>print\<close>, or an assignment of a boolean to the model's
  \<^verbatim>\<open>rnc_pretrain_flag\<close>. The driver's own statements among them, whatever the
  framework does, leave the parameter tensors and every other attribute of the model
  as they were. For a framework whose constructors, schedule call and \<^verbatim>\<open>print\<close>
  leave the parameter tensors unchanged, every event of a run other than
  \<^verbatim>\<open>train()\<close> and \<^verbatim>\<open>eval()\<close> of a solver leaves them unchanged, and they are the
  initial ones as long as no such call has been made. Each loss and metric function
  the driver names is the argument of a \<^verbatim>\<open>FunctionalLoss\<close> or \<^verbatim>\<open>FunctionalMetric\<close>
  object that reaches a solver inside its constraint or validator; none is called by
  the driver.
\<close>

theorem driver_only_delegates:
  assumes "exec raises [] (train env cfg) = (tr, r)"
  shows "(\<forall>ev \<in> set tr. delegated env cfg ev)
     \<and> (\<forall>ev \<in> set tr. own_write ev \<longrightarrow>
           (\<forall>(fw :: 'f event \<Rightarrow> ('f, 'v) model_state \<Rightarrow> ('f, 'v) model_state) s.
              tensors (step_effect fw (model env cfg) ev s) = tensors s
              \<and> (\<forall>a. a \<noteq> ''rnc_pretrain_flag'' \<longrightarrow>
                    attributes (step_effect fw (model env cfg) ev s) a = attributes s a)))
     \<and> (\<forall>(fw :: 'f event \<Rightarrow> ('f, 'v) model_state \<Rightarrow> ('f, 'v) model_state).
           (\<forall>ev s. delegated env cfg ev \<and> \<not> own_write ev \<and> \<not> training_call ev \<longrightarrow>
                     tensors (fw ev s) = tensors s) \<longrightarrow>
           (\<forall>pre ev s. prefix (pre @ [ev]) tr \<and> \<not> training_call ev \<longrightarrow>
               tensors (run_effect fw (model env cfg) (pre @ [ev]) s) =
               tensors (run_effect fw (model env cfg) pre s))
           \<and> (\<forall>pre s. prefix pre tr \<and> \<not> list_ex training_call pre \<longrightarrow>
               tensors (run_effect fw (model env cfg) pre s) = tensors s))
     \<and> map_of (kwargs_of (sup_constraint cfg)) ''loss'' =
         Some (PObj ''ppsci.loss.FunctionalLoss''
                 [PFun ''enso_metric.train_extformer_moe_func''] [])
     \<and> map_of (kwargs_of (sup_validator cfg)) ''loss'' =
         Some (PObj ''ppsci.loss.FunctionalLoss''
                 [PFun ''enso_metric.train_extformer_moe_func''] [])
     \<and> map_of (kwargs_of (sup_validator cfg)) ''metric'' =
         Some (PDict [(''rmse'', PObj ''ppsci.metric.FunctionalMetric''
                                   [PFun ''enso_metric.eval_rmse_func''] [])])
     \<and> map_of (kwargs_of (rnc_sup_constraint cfg)) ''loss'' =
         Some (PObj ''ppsci.loss.FunctionalLoss'' [PFun ''enso_metric.rnc_pretrain_func''] [])
     \<and> map_of (kwargs_of (rnc_sup_validator cfg)) ''loss'' =
         Some (PObj ''ppsci.loss.FunctionalLoss'' [PFun ''enso_metric.rnc_pretrain_func''] [])
     \<and> map_of (kwargs_of (rnc_sup_validator cfg)) ''metric'' =
         Some (PDict [(''rnc_loss'', PObj ''ppsci.metric.FunctionalMetric''
                                       [PFun ''enso_metric.eval_rnc_pretrain_func''] [])])
     \<and> args_of (solver env cfg) ! 1 = PDict [(attr_name env (sup_constraint cfg), sup_constraint cfg)]
     \<and> map_of (kwargs_of (solver env cfg)) ''validator'' =
         Some (PDict [(attr_name env (sup_validator cfg), sup_validator cfg)])
     \<and> args_of (rnc_solver env cfg) ! 1 =
         PDict [(attr_name env (rnc_sup_constraint cfg), rnc_sup_constraint cfg)]
     \<and> map_of (kwargs_of (rnc_solver env cfg)) ''validator'' =
         Some (PDict [(attr_name env (rnc_sup_validator cfg), rnc_sup_validator cfg)])"
proof (intro conjI)
  show d: "\<forall>ev \<in> set tr. delegated env cfg ev"
    using delegated_train[OF assms] by blast
  show "\<forall>ev \<in> set tr. own_write ev \<longrightarrow>
           (\<forall>(fw :: 'f event \<Rightarrow> ('f, 'v) model_state \<Rightarrow> ('f, 'v) model_state) s.
              tensors (step_effect fw (model env cfg) ev s) = tensors s
              \<and> (\<forall>a. a \<noteq> ''rnc_pretrain_flag'' \<longrightarrow>
                    attributes (step_effect fw (model env cfg) ev s) a = attributes s a))"
    using d own_write_frame by blast
  show "\<forall>(fw :: 'f event \<Rightarrow> ('f, 'v) model_state \<Rightarrow> ('f, 'v) model_state).
           (\<forall>ev s. delegated env cfg ev \<and> \<not> own_write ev \<and> \<not> training_call ev \<longrightarrow>
                     tensors (fw ev s) = tensors s) \<longrightarrow>
           (\<forall>pre ev s. prefix (pre @ [ev]) tr \<and> \<not> training_call ev \<longrightarrow>
               tensors (run_effect fw (model env cfg) (pre @ [ev]) s) =
               tensors (run_effect fw (model env cfg) pre s))
           \<and> (\<forall>pre s. prefix pre tr \<and> \<not> list_ex training_call pre \<longrightarrow>
               tensors (run_effect fw (model env cfg) pre s) = tensors s)"
  proof (intro allI impI conjI)
    fix fw :: "'f event \<Rightarrow> ('f, 'v) model_state \<Rightarrow> ('f, 'v) model_state"
    assume quiet: "\<forall>ev s. delegated env cfg ev \<and> \<not> own_write ev \<and> \<not> training_call ev \<longrightarrow>
                     tensors (fw ev s) = tensors s"
    {
      fix pre ev s
      assume a: "prefix (pre @ [ev]) tr \<and> \<not> training_call ev"
      then have "ev \<in> set tr" by (auto simp: prefix_def)
      with d have "delegated env cfg ev" by blast
      with a show "tensors (run_effect fw (model env cfg) (pre @ [ev]) s) =
               tensors (run_effect fw (model env cfg) pre s)"
        unfolding run_effect_snoc using step_frame[OF quiet] by blast
    next
      fix pre s
      assume a: "prefix pre tr \<and> \<not> list_ex training_call pre"
      then have "set pre \<subseteq> set tr" by (auto simp: prefix_def)
      with d have "\<forall>ev \<in> set pre. delegated env cfg ev" by blast
      with a show "tensors (run_effect fw (model env cfg) pre s) = tensors s"
        using run_frame[OF quiet] by blast
    }
  qed
next
  show "map_of (kwargs_of (sup_constraint cfg)) ''loss'' =
         Some (PObj ''ppsci.loss.FunctionalLoss''
                 [PFun ''enso_metric.train_extformer_moe_func''] [])"
    by (simp add: sup_constraint_def FunctionalLoss_def)
next
  show "map_of (kwargs_of (sup_validator cfg)) ''loss'' =
         Some (PObj ''ppsci.loss.FunctionalLoss''
                 [PFun ''enso_metric.train_extformer_moe_func''] [])"
    by (simp add: sup_validator_def validator_object_def FunctionalLoss_def)
next
  show "map_of (kwargs_of (sup_validator cfg)) ''metric'' =
         Some (PDict [(''rmse'', PObj ''ppsci.metric.FunctionalMetric''
                                   [PFun ''enso_metric.eval_rmse_func''] [])])"
    by (simp add: sup_validator_def validator_object_def FunctionalMetric_def)
next
  show "map_of (kwargs_of (rnc_sup_constraint cfg)) ''loss'' =
         Some (PObj ''ppsci.loss.FunctionalLoss'' [PFun ''enso_metric.rnc_pretrain_func''] [])"
    by (simp add: rnc_sup_constraint_def FunctionalLoss_def)
next
  show "map_of (kwargs_of (rnc_sup_validator cfg)) ''loss'' =
         Some (PObj ''ppsci.loss.FunctionalLoss'' [PFun ''enso_metric.rnc_pretrain_func''] [])"
    by (simp add: rnc_sup_validator_def FunctionalLoss_def)
next
  show "map_of (kwargs_of (rnc_sup_validator cfg)) ''metric'' =
         Some (PDict [(''rnc_loss'', PObj ''ppsci.metric.FunctionalMetric''
                                       [PFun ''enso_metric.eval_rnc_pretrain_func''] [])])"
    by (simp add: rnc_sup_validator_def FunctionalMetric_def)
next
  show "args_of (solver env cfg) ! 1 =
      PDict [(attr_name env (sup_constraint cfg), sup_constraint cfg)]"
    by (simp add: solver_def constraint_def)
next
  show "map_of (kwargs_of (solver env cfg)) ''validator'' =
         Some (PDict [(attr_name env (sup_validator cfg), sup_validator cfg)])"
    by (simp add: solver_def validator_def)
next
  show "args_of (rnc_solver env cfg) ! 1 =
         PDict [(attr_name env (rnc_sup_constraint cfg), rnc_sup_constraint cfg)]"
    by (simp add: rnc_solver_def rnc_constraint_def)
next
  show "map_of (kwargs_of (rnc_solver env cfg)) ''validator'' =
         Some (PDict [(attr_name env (rnc_sup_validator cfg), rnc_sup_validator cfg)])"
    by (simp add: rnc_solver_def rnc_validator_def)
qed

theorem driver_only_delegates_witness:
  "list_all (delegated sample_framework sample_cfg)
     (fst (exec (\<lambda>h e. False) [] (train sample_framework sample_cfg)))
   \<and> tensors (run_effect training_effect (model sample_framework sample_cfg)
                (setup_events sample_framework sample_cfg) fresh_model) = tensors fresh_model
   \<and> attributes (step_effect training_effect (model sample_framework sample_cfg)
        (SetAttr (model sample_framework sample_cfg) ''rnc_pretrain_flag'' (PBool True))
        fresh_model) ''training'' = None"
proof -
  let ?tr = "planned (train sample_framework sample_cfg)"
  note c8 = driver_only_delegates[where 'v = int, OF sample_run(1), of sample_framework]
  have a: "list_all (delegated sample_framework sample_cfg) ?tr"
    using conjunct1[OF c8] by (simp add: list_all_iff)
  have quiet: "\<forall>ev s. delegated sample_framework sample_cfg ev \<and> \<not> own_write ev
        \<and> \<not> training_call ev \<longrightarrow> tensors (training_effect ev s) = tensors s"
    by (simp add: training_effect_quiet)
  have pre: "prefix (setup_events sample_framework sample_cfg) ?tr"
    by (simp add: sample_train_events train_events_def)
  note under_quiet = conjunct1[OF conjunct2[OF conjunct2[OF c8]], THEN spec, THEN mp, OF quiet]
  have b: "tensors (run_effect training_effect (model sample_framework sample_cfg)
                (setup_events sample_framework sample_cfg) fresh_model) = tensors fresh_model"
  proof -
    have "\<forall>pre s. prefix pre ?tr \<and> \<not> list_ex training_call pre \<longrightarrow>
        tensors (run_effect training_effect (model sample_framework sample_cfg) pre s)
        = tensors s"
      using under_quiet by (rule conjunct2)
    then have "prefix (setup_events sample_framework sample_cfg) ?tr
        \<and> \<not> list_ex training_call (setup_events sample_framework sample_cfg :: rat event list)
        \<longrightarrow> tensors (run_effect training_effect (model sample_framework sample_cfg)
                (setup_events sample_framework sample_cfg) fresh_model) = tensors fresh_model"
      by blast
    with pre setup_no_training[of sample_framework sample_cfg] show ?thesis
      by blast
  qed
  have flag: "SetAttr (model sample_framework sample_cfg) ''rnc_pretrain_flag'' (PBool True)
      \<in> set ?tr"
    by (simp add: sample_train_events train_events_def planned_rnc_pretrain)
  have own: "own_write (SetAttr (model sample_framework sample_cfg) ''rnc_pretrain_flag''
      (PBool True) :: rat event)"
    by simp
  note written = conjunct1[OF conjunct2[OF c8], THEN bspec, OF flag, THEN mp, OF own,
      THEN spec, THEN spec, THEN conjunct2, THEN spec, THEN mp]
  have "attributes (step_effect training_effect (model sample_framework sample_cfg)
        (SetAttr (model sample_framework sample_cfg) ''rnc_pretrain_flag'' (PBool True))
        fresh_model) ''training'' = attributes fresh_model ''training''"
    by (rule written) simp
  then have c: "attributes (step_effect training_effect (model sample_framework sample_cfg)
        (SetAttr (model sample_framework sample_cfg) ''rnc_pretrain_flag'' (PBool True))
        fresh_model) ''training'' = None"
    by (simp add: fresh_model_def)
  from a b c show ?thesis by (simp add: sample_run)
qed

text \<open>
  The claim as worded fails for a framework whose solver constructor loads the
  checkpoint it is given: the construction of the main solver, which is no call of
  \<^verbatim>\<open>train()\<close> or \<^verbatim>\<open>eval()\<close>, changes a parameter value.
\<close>

theorem solver_constructor_may_load_parameters:
  "New (solver sample_framework sample_cfg)
     \<in> set (fst (exec (\<lambda>h e. False) [] (train sample_framework sample_cfg)))
   \<and> \<not> training_call (New (solver sample_framework sample_cfg))
   \<and> tensors fresh_model (Param 0) = 0
   \<and> tensors (step_effect loading_effect (model sample_framework sample_cfg)
                (New (solver sample_framework sample_cfg)) fresh_model) (Param 0) = 1"
proof (intro conjI)
  show "New (solver sample_framework sample_cfg)
     \<in> set (fst (exec (\<lambda>h e. False) [] (train sample_framework sample_cfg)))"
    by (simp add: sample_run sample_train_events train_events_def planned_main)
  show "\<not> training_call (New (solver sample_framework sample_cfg))"
    by simp
  show "tensors fresh_model (Param 0) = 0"
    by (simp add: fresh_model_def)
  show "tensors (step_effect loading_effect (model sample_framework sample_cfg)
                (New (solver sample_framework sample_cfg)) fresh_model) (Param 0) = 1"
    by (simp add: loading_effect_def sample_solver_path)
qed

text \<open>
  C10. \<^verbatim>\<open>main(cfg)\<close> first sets the device, to \<^verbatim>\<open>'cpu'\<close> exactly when
  \<^verbatim>\<open>cfg.DEVICE\<close> is \<^verbatim>\<open>-1\<close> and to \<^verbatim>\<open>f'gpu:{cfg.DEVICE}'\<close> otherwise. When that call
  returns, it continues as \<^verbatim>\<open>train(cfg)\<close> in mode \<^verbatim>\<open>train\<close>, as \<^verbatim>\<open>evaluate(cfg)\<close> in
  mode \<^verbatim>\<open>eval\<close>, and raises \<^verbatim>\<open>ValueError\<close> for every other mode.
\<close>

theorem main_dispatch:
  "device cfg = (if DEVICE cfg = - 1 then ''cpu'' else ''gpu:'' @ str_int (DEVICE cfg))
   \<and> set_device cfg = LibCall ''paddle.device.set_device'' [PStr (device cfg)]
   \<and> (\<exists>rest. fst (exec raises [] (main env cfg)) = set_device cfg # rest)
   \<and> (raises [] (set_device cfg) \<longrightarrow>
        exec raises [] (main env cfg) = ([set_device cfg], Some FrameworkError))
   \<and> (\<not> raises [] (set_device cfg) \<longrightarrow>
        exec raises [] (main env cfg) =
          (if mode cfg = ''train'' then exec raises [set_device cfg] (train env cfg)
           else if mode cfg = ''eval'' then exec raises [set_device cfg] (evaluate env cfg)
           else ([set_device cfg], Some (ValueError (mode_error (mode cfg))))))"
proof (intro conjI)
  show "device cfg = (if DEVICE cfg = - 1 then ''cpu'' else ''gpu:'' @ str_int (DEVICE cfg))"
    by (simp add: device_def)
next
  show "set_device cfg = LibCall ''paddle.device.set_device'' [PStr (device cfg)]"
    by (simp add: set_device_def)
next
  obtain tr r where run: "exec raises [set_device cfg]
      (if mode cfg = ''train'' then train env cfg
        else if mode cfg = ''eval'' then evaluate env cfg
        else [Throw (ValueError (mode_error (mode cfg)))]) = (tr, r)"
    by (cases "exec raises [set_device cfg]
      (if mode cfg = ''train'' then train env cfg
        else if mode cfg = ''eval'' then evaluate env cfg
        else [Throw (ValueError (mode_error (mode cfg)))])")
  from exec_trace[OF run] obtain tr' where "tr = [set_device cfg] @ tr'" by blast
  with run show "\<exists>rest. fst (exec raises [] (main env cfg)) = set_device cfg # rest"
    by (cases "raises [] (set_device cfg)") (simp_all add: main_def)
next
  show "raises [] (set_device cfg) \<longrightarrow>
        exec raises [] (main env cfg) = ([set_device cfg], Some FrameworkError)"
    by (simp add: main_def)
next
  show "\<not> raises [] (set_device cfg) \<longrightarrow>
        exec raises [] (main env cfg) =
          (if mode cfg = ''train'' then exec raises [set_device cfg] (train env cfg)
           else if mode cfg = ''eval'' then exec raises [set_device cfg] (evaluate env cfg)
           else ([set_device cfg], Some (ValueError (mode_error (mode cfg)))))"
    by (simp add: main_def)
qed

theorem main_dispatch_witness:
  "exec (\<lambda>h e. False) [] (main sample_framework sample_cfg_predict) =
     ([LibCall ''paddle.device.set_device'' [PStr ''gpu:0'']],
      Some (ValueError (''cfg.mode should in ['' @ [CHR 0x27] @ ''train'' @ [CHR 0x27] @ '', ''
                         @ [CHR 0x27] @ ''eval'' @ [CHR 0x27] @ ''], but got ''
                         @ [CHR 0x27] @ ''predict'' @ [CHR 0x27])))
   \<and> device sample_cfg_eval = ''cpu''
   \<and> exec (\<lambda>h e. False) [] (main sample_framework sample_cfg_eval) =
       exec (\<lambda>h e. False) [set_device sample_cfg_eval] (evaluate sample_framework sample_cfg_eval)
   \<and> exec (\<lambda>h e. False) [] (main sample_framework sample_cfg) =
       exec (\<lambda>h e. False) [set_device sample_cfg] (train sample_framework sample_cfg)"
proof (intro conjI)
  have dev: "device sample_cfg_predict = ''gpu:0''"
    by (simp add: device_def sample_cfg_predict_def sample_cfg_def str_int_def str_nat_digit)
  have mode: "mode sample_cfg_predict = ''predict''"
    by (simp add: sample_cfg_predict_def)
  from main_dispatch[of sample_cfg_predict "\<lambda>h e. False" sample_framework]
  show "exec (\<lambda>h e. False) [] (main sample_framework sample_cfg_predict) =
     ([LibCall ''paddle.device.set_device'' [PStr ''gpu:0'']],
      Some (ValueError (''cfg.mode should in ['' @ [CHR 0x27] @ ''train'' @ [CHR 0x27] @ '', ''
                         @ [CHR 0x27] @ ''eval'' @ [CHR 0x27] @ ''], but got ''
                         @ [CHR 0x27] @ ''predict'' @ [CHR 0x27])))"
    by (simp add: mode dev set_device_def mode_error_def)
next
  from main_dispatch[of sample_cfg_eval "\<lambda>h e. False" sample_framework]
  show "device sample_cfg_eval = ''cpu''"
    by (simp add: sample_cfg_eval_def)
next
  have mode: "mode sample_cfg_eval = ''eval''"
    by (simp add: sample_cfg_eval_def)
  from main_dispatch[of sample_cfg_eval "\<lambda>h e. False" sample_framework]
  show "exec (\<lambda>h e. False) [] (main sample_framework sample_cfg_eval) =
       exec (\<lambda>h e. False) [set_device sample_cfg_eval] (evaluate sample_framework sample_cfg_eval)"
    by (simp add: mode)
next
  have mode: "mode sample_cfg = ''train''"
    by (simp add: sample_cfg_def)
  from main_dispatch[of sample_cfg "\<lambda>h e. False" sample_framework]
  show "exec (\<lambda>h e. False) [] (main sample_framework sample_cfg) =
       exec (\<lambda>h e. False) [set_device sample_cfg] (train sample_framework sample_cfg)"
    by (simp add: mode)
qed

end
